theory Spec2Isabelle
  imports Main "HOL-Library.Word" "HOL-Library.Signed_Division"
begin

unbundle bit_operations_syntax

section \<open>Errors\<close>

text \<open>
  The Go code reports failures as \<open>error\<close> values built from message strings. Each
  constructor below stands for one message (or one family of messages) of the source, and
  the two panics stand for the Go runtime panics that the modelled code can raise. No
  function of the program recovers from a panic, so every caller hands a panic on
  unchanged.
\<close>

datatype error =
    InvalidSubnetSize       \<comment> \<open>"Invalid subnet size.  Expected between /0 and /32"\<close>
  | CannotSplit             \<comment> \<open>"Cannot split /32 address space"\<close>
  | BadSubnet               \<comment> \<open>"Cannot free bad subnet ..."\<close>
  | DoubleFree              \<comment> \<open>"Double free of ..."\<close>
  | PanicIndexOutOfRange    \<comment> \<open>runtime panic: array index out of range\<close>
  | PanicNilMap             \<comment> \<open>runtime panic: assignment to entry in nil map\<close>
  | Transport               \<comment> \<open>the error returned by the HTTP session itself\<close>
  | UnexpectedStatus int    \<comment> \<open>\<open>VsdErrorResponse\<close>: "Unexpected error code: ..."\<close>
  | NotFound                \<comment> \<open>"... not found"\<close>
  | Mismatch                \<comment> \<open>"Found %q instead of %q"\<close>
  | InvalidZoneID           \<comment> \<open>"Invalid zone ID returned"\<close>
  | IncorrectAnnotation     \<comment> \<open>"Incorrect annotation information for creating service network macro"\<close>
  | InsufficientAnnotation  \<comment> \<open>"Insufficient annotation information for creating service network macro"\<close>

fun is_panic :: "error \<Rightarrow> bool" where
  "is_panic PanicIndexOutOfRange = True"
| "is_panic PanicNilMap = True"
| "is_panic _ = False"

section \<open>IPv4 addresses and subnets (\<open>client/ipv4subnet.go\<close>)\<close>

text \<open>\<open>type IPv4Address [4]uint8\<close>: exactly four octets.\<close>

datatype IPv4Address = IPv4Address "8 word" "8 word" "8 word" "8 word"

text \<open>
  Reading and writing one octet. Both are total here; every use below is guarded by the
  bounds check that the Go runtime performs, and the guard yields
  \<^const>\<open>PanicIndexOutOfRange\<close> when the index is outside \<open>0..3\<close>.
\<close>

fun octet :: "IPv4Address \<Rightarrow> nat \<Rightarrow> 8 word" where
  "octet (IPv4Address a0 a1 a2 a3) i =
     (if i = 0 then a0 else if i = 1 then a1 else if i = 2 then a2 else a3)"

fun set_octet :: "IPv4Address \<Rightarrow> nat \<Rightarrow> 8 word \<Rightarrow> IPv4Address" where
  "set_octet (IPv4Address a0 a1 a2 a3) i v =
     (if i = 0 then IPv4Address v a1 a2 a3
      else if i = 1 then IPv4Address a0 v a2 a3
      else if i = 2 then IPv4Address a0 a1 v a3
      else IPv4Address a0 a1 a2 v)"

text \<open>
  \<open>type IPv4Subnet struct { Address IPv4Address; CIDRMask int }\<close>. The mask is a Go
  \<open>int\<close>; it is modelled as an integer, and the one subtraction of two arbitrary masks
  (in \<open>Compare\<close>) wraps at 64 bits as Go's does.
\<close>

record IPv4Subnet =
  Address :: IPv4Address
  CIDRMask :: int

definition wrap64 :: "int \<Rightarrow> int" where
  "wrap64 x = (x + 2 ^ 63) mod 2 ^ 64 - 2 ^ 63"

subsection \<open>Split\<close>

text \<open>
  The \<open>for\<close> loop of \<open>Split\<close> over the four octets: \<open>i\<close> is the loop index, \<open>m\<close> (the source's \<open>mask\<close>) the
  number of prefix bits still to copy, the pair the two result addresses (both start as
  the zero address and receive the same octets).
\<close>

function Split_loop ::
  "nat \<Rightarrow> int \<Rightarrow> IPv4Address \<Rightarrow> IPv4Address \<times> IPv4Address \<Rightarrow> IPv4Address \<times> IPv4Address"
where
  "Split_loop i m src (lo, hi) =
     (if i < 4 then
        (if m \<ge> 8 then
           Split_loop (i + 1) (m - 8) src
             (set_octet lo i (octet src i), set_octet hi i (octet src i))
         else if m > 0 then
           (let bitmask = (word_of_int (((256 - 2 ^ nat (8 - m)) mod 2 ^ 64) mod 256) :: 8 word)
            in Split_loop (i + 1) 0 src
                 (set_octet lo i (octet src i AND bitmask),
                  set_octet hi i (octet src i AND bitmask)))
         else Split_loop (i + 1) m src (lo, hi))
      else (lo, hi))"
  by pat_completeness auto
termination
  by (relation "measure (\<lambda>(i, m, src, acc). 4 - i)") auto

declare Split_loop.simps [simp del]

text \<open>
  \<open>Split\<close>: the low and the high half of a subnet. Go's \<open>/\<close> and \<open>%\<close> truncate towards
  zero (\<open>sdiv\<close>, \<open>smod\<close>); \<open>uint\<close> of a negative remainder is a shift count beyond the
  width of the octet, which shifts every bit out.
\<close>

definition Split :: "IPv4Subnet \<Rightarrow> error + (IPv4Subnet \<times> IPv4Subnet)" where
  "Split subnet =
     (if CIDRMask subnet \<ge> 32 then Inl CannotSplit
      else
        (let (loA, hiA) = Split_loop 0 (CIDRMask subnet) (Address subnet)
                            (IPv4Address 0 0 0 0, IPv4Address 0 0 0 0);
             index = CIDRMask subnet sdiv 8;
             offset = CIDRMask subnet smod 8;
             b = (if offset < 0 then 0 else drop_bit (nat offset) (128 :: 8 word))
         in if index < 0 \<or> 3 < index then Inl PanicIndexOutOfRange
            else Inr (\<lparr>Address = set_octet loA (nat index) (octet loA (nat index) AND NOT b),
                        CIDRMask = CIDRMask subnet + 1\<rparr>,
                      \<lparr>Address = set_octet hiA (nat index) (octet hiA (nat index) OR b),
                        CIDRMask = CIDRMask subnet + 1\<rparr>)))"

subsection \<open>Compare\<close>

text \<open>
  \<open>Compare\<close> returns \<open>b.CIDRMask - a.CIDRMask\<close> when that is not zero. Otherwise it
  reads the single octet at index \<open>a.CIDRMask / 8\<close> of both addresses, masks both with
  \<open>uint8((256 - uint(1 << uint(8 - (a.CIDRMask % 8)))) % 256)\<close>, subtracts them as
  \<open>uint8\<close> values (so the difference wraps into \<open>0..255\<close>) and converts the result to
  \<open>int\<close>.
\<close>

definition Compare :: "IPv4Subnet \<Rightarrow> IPv4Subnet \<Rightarrow> error + int" where
  "Compare a b =
     (let n = wrap64 (CIDRMask b - CIDRMask a) in
      if n \<noteq> 0 then Inr n
      else
        (let index = CIDRMask a sdiv 8;
             msk = (word_of_int
                      (((256 - 2 ^ nat (8 - (CIDRMask a smod 8))) mod 2 ^ 64) mod 256) :: 8 word)
         in if index < 0 \<or> 3 < index then Inl PanicIndexOutOfRange
            else Inr (uint ((octet (Address a) (nat index) AND msk)
                             - (octet (Address b) (nat index) AND msk)))))"

section \<open>The subnet pool\<close>

text \<open>
  \<open>type IPv4SubnetPool [33]*IPv4SubnetNode\<close>: one singly linked list of subnets per
  mask length. A bucket is modelled as the list of the subnets of its nodes, in order;
  the array as a function from the index to the bucket. \<open>Alloc\<close> and \<open>Free\<close> check
  the index against \<open>0..32\<close> before they touch the array, so no other index is ever
  read or written.
\<close>

type_synonym IPv4SubnetPool = "int \<Rightarrow> IPv4Subnet list"

definition empty_pool :: IPv4SubnetPool where
  "empty_pool = (\<lambda>_. [])"

text \<open>
  The \<open>for curr != nil\<close> loop of \<open>Free\<close>, started at the second node of the bucket: it
  returns the nodes that follow \<open>prev\<close> after the insertion.
\<close>

fun Free_loop :: "IPv4Subnet \<Rightarrow> IPv4Subnet list \<Rightarrow> error + IPv4Subnet list" where
  "Free_loop subnet [] = Inr [subnet]"
| "Free_loop subnet (cur # rest) =
     (case Compare subnet cur of
        Inl e \<Rightarrow> Inl e
      | Inr c \<Rightarrow>
          if c = 0 then Inl DoubleFree
          else if c < 0 then Inr (subnet # cur # rest)
          else (case Free_loop subnet rest of
                  Inl e \<Rightarrow> Inl e
                | Inr rest' \<Rightarrow> Inr (cur # rest')))"

definition Free :: "IPv4Subnet \<Rightarrow> IPv4SubnetPool \<Rightarrow> error option \<times> IPv4SubnetPool" where
  "Free subnet pool =
     (if CIDRMask subnet < 0 \<or> CIDRMask subnet > 32 then (Some BadSubnet, pool)
      else
        (case pool (CIDRMask subnet) of
           [] \<Rightarrow> (None, pool(CIDRMask subnet := [subnet]))
         | cur # rest \<Rightarrow>
             (case Compare subnet cur of
                Inl e \<Rightarrow> (Some e, pool)
              | Inr c \<Rightarrow>
                  if c < 0 then (None, pool(CIDRMask subnet := subnet # cur # rest))
                  else (case Free_loop subnet rest of
                          Inl e \<Rightarrow> (Some e, pool)
                        | Inr rest' \<Rightarrow> (None, pool(CIDRMask subnet := cur # rest'))))))"

text \<open>
  \<open>Alloc\<close>. When \<open>Split\<close> or the \<open>Free\<close> of the high half fails, the source frees the
  big subnet again and returns the first error; a panic is handed on at once.
\<close>

definition Alloc_undo ::
  "error \<Rightarrow> IPv4Subnet \<Rightarrow> IPv4SubnetPool \<Rightarrow> (error + IPv4Subnet) \<times> IPv4SubnetPool" where
  "Alloc_undo err bigSubnet pool =
     (if is_panic err then (Inl err, pool)
      else (case Free bigSubnet pool of
              (Some e, pool') \<Rightarrow> if is_panic e then (Inl e, pool') else (Inl err, pool')
            | (None, pool') \<Rightarrow> (Inl err, pool')))"

function Alloc :: "int \<Rightarrow> IPv4SubnetPool \<Rightarrow> (error + IPv4Subnet) \<times> IPv4SubnetPool" where
  "Alloc sz pool =
     (if sz < 0 \<or> sz > 32 then (Inl InvalidSubnetSize, pool)
      else
        (case pool sz of
           node # nxt \<Rightarrow> (Inr node, pool(sz := nxt))
         | [] \<Rightarrow>
             (case Alloc (sz - 1) pool of
                (Inl err, pool1) \<Rightarrow> (Inl err, pool1)
              | (Inr bigSubnet, pool1) \<Rightarrow>
                  (case Split bigSubnet of
                     Inl err \<Rightarrow> Alloc_undo err bigSubnet pool1
                   | Inr (loSubnet, hiSubnet) \<Rightarrow>
                       (case Free hiSubnet pool1 of
                          (Some err, pool2) \<Rightarrow> Alloc_undo err bigSubnet pool2
                        | (None, pool2) \<Rightarrow> (Inr loSubnet, pool2))))))"
  by pat_completeness auto
termination
  by (relation "measure (\<lambda>(sz, pool). nat (sz + 1))") auto

declare Alloc.simps [simp del]


section \<open>Scenarios on the pool\<close>

text \<open>The composite literal \<open>&IPv4Subnet{IPv4Address{a, b, c, d}, m}\<close>.\<close>

definition cidr :: "8 word \<Rightarrow> 8 word \<Rightarrow> 8 word \<Rightarrow> 8 word \<Rightarrow> int \<Rightarrow> IPv4Subnet" where
  "cidr a b c d m = \<lparr>Address = IPv4Address a b c d, CIDRMask = m\<rparr>"

text \<open>The subnet \<open>a.b.i.0/24\<close>.\<close>

definition block24 :: "8 word \<Rightarrow> 8 word \<Rightarrow> nat \<Rightarrow> IPv4Subnet" where
  "block24 a b i = cidr a b (of_nat i) 0 24"

text \<open>\<open>n\<close> successive calls \<open>pool.Alloc(sz)\<close>, stopping at the first error.\<close>

fun Alloc_many ::
  "nat \<Rightarrow> int \<Rightarrow> IPv4SubnetPool \<Rightarrow> (error + IPv4Subnet list) \<times> IPv4SubnetPool" where
  "Alloc_many 0 sz pool = (Inr [], pool)"
| "Alloc_many (Suc n) sz pool =
     (case Alloc sz pool of
        (Inl e, pool1) \<Rightarrow> (Inl e, pool1)
      | (Inr s, pool1) \<Rightarrow>
          (case Alloc_many n sz pool1 of
             (Inl e, pool2) \<Rightarrow> (Inl e, pool2)
           | (Inr ss, pool2) \<Rightarrow> (Inr (s # ss), pool2)))"

text \<open>
  A caller of the pool: it allocates, keeps the subnets it was given (\<open>out\<close>, the
  subnets allocated and not yet freed) and frees one of them. \<open>OpFree i\<close> frees the
  \<open>i\<close>-th outstanding subnet, so a run that ends with no outstanding subnet has freed
  every subnet it was given exactly once.
\<close>

datatype pool_op = OpAlloc int | OpFree nat

fun run_op ::
  "pool_op \<Rightarrow> IPv4SubnetPool \<times> IPv4Subnet list \<Rightarrow> IPv4SubnetPool \<times> IPv4Subnet list" where
  "run_op (OpAlloc k) (pool, out) =
     (case Alloc k pool of
        (Inr s, pool') \<Rightarrow> (pool', out @ [s])
      | (Inl e, pool') \<Rightarrow> (pool', out))"
| "run_op (OpFree i) (pool, out) =
     (if i < length out
      then (snd (Free (out ! i) pool), take i out @ drop (Suc i) out)
      else (pool, out))"

fun run_ops ::
  "pool_op list \<Rightarrow> IPv4SubnetPool \<times> IPv4Subnet list \<Rightarrow> IPv4SubnetPool \<times> IPv4Subnet list" where
  "run_ops [] st = st"
| "run_ops (op # ops) st = run_ops ops (run_op op st)"

fun alloc_size_is :: "int \<Rightarrow> pool_op \<Rightarrow> bool" where
  "alloc_size_is m (OpAlloc k) = (k = m)"
| "alloc_size_is m (OpFree i) = True"

section \<open>The SDN client (\<open>nuagevsdclient.go\<close>)\<close>

subsection \<open>Strings\<close>

text \<open>
  \<open>fmt.Sprintf("%v", n)\<close> for an unsigned number: its decimal digits.
\<close>

fun dec :: "nat \<Rightarrow> string" where
  "dec n = (if n < 10 then [''0123456789'' ! n] else dec (n div 10) @ [''0123456789'' ! (n mod 10)])"

declare dec.simps [simp del]

text \<open>\<open>func (addr IPv4Address) String()\<close>: \<open>"%v.%v.%v.%v"\<close>.\<close>

fun IPv4Address_String :: "IPv4Address \<Rightarrow> string" where
  "IPv4Address_String (IPv4Address a0 a1 a2 a3) =
     dec (unat a0) @ ''.'' @ dec (unat a1) @ ''.'' @ dec (unat a2) @ ''.'' @ dec (unat a3)"

text \<open>
  \<open>Netmask\<close>: the dotted netmask of a subnet. \<open>fullmask\<close> is computed in \<open>uint\<close>
  (64 bits).
\<close>

definition Netmask :: "IPv4Subnet \<Rightarrow> IPv4Address" where
  "Netmask subnet =
     (if CIDRMask subnet \<ge> 32 then IPv4Address 255 255 255 255
      else
        (let fullmask = (2 ^ 32 - (2 ^ nat (32 - CIDRMask subnet)) mod 2 ^ 64) mod 2 ^ 64 :: int
         in IPv4Address (word_of_int ((fullmask div 2 ^ 24) mod 256))
                        (word_of_int ((fullmask div 2 ^ 16) mod 256))
                        (word_of_int ((fullmask div 256) mod 256))
                        (word_of_int (fullmask mod 256))))"

subsection \<open>Objects of the SDN API\<close>

text \<open>
  The package \<open>api\<close> is not among the sources. Each record holds the fields that the
  client code sets in a payload; \<open>VsdResult\<close> holds the fields that it reads from
  \<open>result[0]\<close>, the first element of the decoded response list, which is zero-valued
  (all strings empty) when the list is empty.
\<close>

record VsdObject =
  ob_Name :: string
  ob_Description :: string

record VsdSubnet =
  sn_IPType :: string
  sn_Address :: string
  sn_Netmask :: string
  sn_Description :: string
  sn_Name :: string

record VsdNetworkMacro =
  nm_Name :: string
  nm_IPType :: string
  nm_Address :: string
  nm_Netmask :: string

record VsdAclTemplate =
  tpl_Name :: string
  DefaultAllowIP :: bool
  DefaultAllowNonIP :: bool

record VsdAclEntry =
  Action :: string
  Description :: string
  EntityScope :: string
  EtherType :: string
  LocationID :: string
  LocationType :: string
  NetworkID :: string
  NetworkType :: string
  PolicyState :: string
  Priority :: int
  Protocol :: string
  Reflexive :: bool

record VsdResult =
  res_ID :: string
  res_Name :: string
  res_IPType :: string
  res_Address :: string
  res_Netmask :: string

subsection \<open>Requests and responses\<close>

text \<open>
  The collections and objects that the client addresses, each standing for the URL that
  the source builds below \<open>nvsdc.url\<close>:
  \<^item> \<open>DomainZones d\<close>: \<open>domains/d/zones\<close>
  \<^item> \<open>ZoneSubnets z\<close>: \<open>zones/z/subnets\<close>
  \<^item> \<open>MacroGroups e\<close>: \<open>enterprises/e/networkmacrogroups\<close>
  \<^item> \<open>EnterpriseNetworks e\<close>: \<open>enterprises/e/enterprisenetworks\<close>
  \<^item> \<open>NetworkMacroList e\<close>: \<open>enterprises/e/networkmacros\<close>
  \<^item> \<open>GroupMembers g\<close>: \<open>networkmacrogroups/g/enterprisenetworks\<close>
  \<^item> \<open>EnterpriseNetwork m\<close>: \<open>enterprisenetworks/m?responseChoice=1\<close>
  \<^item> \<open>IngressAclTemplates d\<close>, \<open>EgressAclTemplates d\<close>:
    \<open>domains/d/ingressacltemplates\<close>, \<open>domains/d/egressacltemplates\<close>
  \<^item> \<open>AclEntries t ingress\<close>: the entries of the ACL template \<open>t\<close>, at the ingress
    endpoint when \<open>ingress\<close> holds and at the egress endpoint otherwise.
\<close>

datatype endpoint =
    DomainZones string
  | ZoneSubnets string
  | MacroGroups string
  | EnterpriseNetworks string
  | NetworkMacroList string
  | GroupMembers string
  | EnterpriseNetwork string
  | IngressAclTemplates string
  | EgressAclTemplates string
  | AclEntries string bool

datatype payload =
    PObject VsdObject
  | PSubnet VsdSubnet
  | PMacro VsdNetworkMacro
  | PAclTemplate VsdAclTemplate
  | PAcl VsdAclEntry
  | PIds "string list"

text \<open>
  The \<open>X-Nuage-Filter\<close> header of a GET: \<open>name == "n"\<close>, \<open>address == "a"\<close>, the
  four-field filter of \<open>GetNetworkMacroID\<close>, and the filter that selects an ACL entry.
\<close>

datatype filter_expr =
    FName string
  | FAddress string
  | FMacro string string string string
  | FAcl VsdAclEntry

datatype request =
    POST endpoint payload
  | GET endpoint filter_expr
  | PUT endpoint payload
  | DELETE endpoint

text \<open>
  What a call of the session returns: an error of the transport (\<open>err != nil\<close>), or a
  status with the first element of the result list.
\<close>

datatype response = TransportError | Response int VsdResult

text \<open>
  The SDN is outside the program. It is a parameter of the model: a function that
  answers a request in a state \<open>'w\<close> of its own.
\<close>

type_synonym 'w http = "request \<Rightarrow> 'w \<Rightarrow> response \<times> 'w"

subsection \<open>The state of the client\<close>

text \<open>
  \<open>NamespaceData\<close> is stored by value in \<open>nvsdc.namespaces\<close>; its declaration is not
  among the sources, its fields are those of the composite literals in the code.
\<close>

record NamespaceData =
  ZoneID :: string
  NetworkMacroGroupID :: string
  NetworkMacros :: "string \<rightharpoonup> string"

text \<open>
  The state of \<open>NuageVsdClient\<close>. The declaration of the struct in the sources lacks
  fields that its methods use (\<open>namespaces\<close>, the ids of the two ACL templates, the
  priority counter), so the record is assembled from the uses in the methods; the fields
  of the HTTP session are left out. A Go map is nil until it is made, and a write to a
  nil map panics. \<open>Init\<close> makes \<open>namespaces\<close> and \<open>subnets\<close>, which are maps here;
  nothing in the sources makes \<open>zones\<close>, so this field is optional, with \<open>None\<close> for
  the nil map that \<open>new(NuageVsdClient)\<close> and \<open>Init\<close> leave. A \<open>SubnetList\<close> chain is
  the list of its \<open>(SubnetID, Subnet)\<close> pairs. Two fields are added: the state of the
  SDN behind the session (\<open>vsd\<close>) and the list of the requests sent so far (\<open>sent\<close>).
\<close>

record 'w NuageVsdClient =
  enterpriseID :: string
  domainID :: string
  zones :: "(string \<rightharpoonup> string) option"
  subnets :: "string \<rightharpoonup> (string \<times> IPv4Subnet) list"
  namespaces :: "string \<rightharpoonup> NamespaceData"
  pool :: IPv4SubnetPool
  subnetSize :: int
  ingressAclTemplateID :: string
  egressAclTemplateID :: string
  nextAvailablePriority :: int
  vsd :: 'w
  sent :: "request list"

definition session ::
  "'w http \<Rightarrow> request \<Rightarrow> 'w NuageVsdClient \<Rightarrow> response \<times> 'w NuageVsdClient" where
  "session h req c =
     (case h req (vsd c) of
        (resp, w) \<Rightarrow> (resp, c\<lparr>vsd := w, sent := sent c @ [req]\<rparr>))"

subsection \<open>Lookups by natural key\<close>

definition GetZoneID ::
  "'w http \<Rightarrow> string \<Rightarrow> string \<Rightarrow> 'w NuageVsdClient \<Rightarrow> (error + string) \<times> 'w NuageVsdClient" where
  "GetZoneID h domID name c =
     (case session h (GET (DomainZones domID) (FName name)) c of
        (TransportError, c1) \<Rightarrow> (Inl Transport, c1)
      | (Response st r, c1) \<Rightarrow>
          if st = 200 then
            (if res_Name r = name then (Inr (res_ID r), c1)
             else if res_Name r = [] then (Inl NotFound, c1)
             else (Inl Mismatch, c1))
          else (Inl (UnexpectedStatus st), c1))"

definition GetSubnetID ::
  "'w http \<Rightarrow> string \<Rightarrow> IPv4Subnet \<Rightarrow> 'w NuageVsdClient \<Rightarrow> (error + string) \<times> 'w NuageVsdClient" where
  "GetSubnetID h zoneID subnet c =
     (case session h (GET (ZoneSubnets zoneID) (FAddress (IPv4Address_String (Address subnet)))) c of
        (TransportError, c1) \<Rightarrow> (Inl Transport, c1)
      | (Response st r, c1) \<Rightarrow>
          if st = 200 \<and> res_Address r = IPv4Address_String (Address subnet)
          then (Inr (res_ID r), c1)
          else (Inl (UnexpectedStatus st), c1))"

definition GetNetworkMacroGroupID ::
  "'w http \<Rightarrow> string \<Rightarrow> string \<Rightarrow> 'w NuageVsdClient \<Rightarrow> (error + string) \<times> 'w NuageVsdClient" where
  "GetNetworkMacroGroupID h entID nmgName c =
     (case session h (GET (MacroGroups entID) (FName nmgName)) c of
        (TransportError, c1) \<Rightarrow> (Inl Transport, c1)
      | (Response st r, c1) \<Rightarrow>
          if st = 200 then
            (if res_Name r = nmgName then (Inr (res_ID r), c1)
             else if res_Name r = [] then (Inl NotFound, c1)
             else (Inl Mismatch, c1))
          else (Inl (UnexpectedStatus st), c1))"

text \<open>
  The part of \<open>GetNetworkMacroID\<close> that follows the GET: what it makes of the response.
\<close>

definition GetNetworkMacroID_result :: "response \<Rightarrow> VsdNetworkMacro \<Rightarrow> error + string" where
  "GetNetworkMacroID_result resp networkMacro =
     (case resp of
        TransportError \<Rightarrow> Inl Transport
      | Response st r \<Rightarrow>
          if st = 200 then
            (if res_Name r = nm_Name networkMacro then Inr (res_ID r)
             else if res_Name r = [] then Inl NotFound
             else Inl Mismatch)
          else Inl (UnexpectedStatus st))"

definition GetNetworkMacroID ::
  "'w http \<Rightarrow> string \<Rightarrow> VsdNetworkMacro \<Rightarrow> 'w NuageVsdClient \<Rightarrow> (error + string) \<times> 'w NuageVsdClient" where
  "GetNetworkMacroID h entID networkMacro c =
     (case session h (GET (NetworkMacroList entID)
                        (FMacro (nm_Name networkMacro) (nm_IPType networkMacro)
                                (nm_Address networkMacro) (nm_Netmask networkMacro))) c of
        (resp, c1) \<Rightarrow> (GetNetworkMacroID_result resp networkMacro, c1))"

definition GetIngressAclTemplateID ::
  "'w http \<Rightarrow> string \<Rightarrow> string \<Rightarrow> 'w NuageVsdClient \<Rightarrow> (error + string) \<times> 'w NuageVsdClient" where
  "GetIngressAclTemplateID h domID name c =
     (case session h (GET (IngressAclTemplates domID) (FName name)) c of
        (TransportError, c1) \<Rightarrow> (Inl Transport, c1)
      | (Response st r, c1) \<Rightarrow>
          if st = 200 then
            (if res_Name r = name then (Inr (res_ID r), c1)
             else if res_Name r = [] then (Inl NotFound, c1)
             else (Inl Mismatch, c1))
          else (Inl (UnexpectedStatus st), c1))"

definition GetEgressAclTemplateID ::
  "'w http \<Rightarrow> string \<Rightarrow> string \<Rightarrow> 'w NuageVsdClient \<Rightarrow> (error + string) \<times> 'w NuageVsdClient" where
  "GetEgressAclTemplateID h domID name c =
     (case session h (GET (EgressAclTemplates domID) (FName name)) c of
        (TransportError, c1) \<Rightarrow> (Inl Transport, c1)
      | (Response st r, c1) \<Rightarrow>
          if st = 200 then
            (if res_Name r = name then (Inr (res_ID r), c1)
             else if res_Name r = [] then (Inl NotFound, c1)
             else (Inl Mismatch, c1))
          else (Inl (UnexpectedStatus st), c1))"

subsection \<open>Create-or-get\<close>

definition CreateZone ::
  "'w http \<Rightarrow> string \<Rightarrow> string \<Rightarrow> 'w NuageVsdClient \<Rightarrow> (error + string) \<times> 'w NuageVsdClient" where
  "CreateZone h domID name c =
     (case session h (POST (DomainZones domID)
                        (PObject \<lparr>ob_Name = name,
                                  ob_Description = ''Auto-generated for OpenShift project '' @ [CHR 0x22] @ name @ [CHR 0x22]\<rparr>)) c of
        (TransportError, c1) \<Rightarrow> (Inl Transport, c1)
      | (Response st r, c1) \<Rightarrow>
          if st = 201 then (Inr (res_ID r), c1)
          else if st = 409 then GetZoneID h domID name c1
          else (Inl (UnexpectedStatus st), c1))"

definition CreateSubnet ::
  "'w http \<Rightarrow> string \<Rightarrow> string \<Rightarrow> IPv4Subnet \<Rightarrow> 'w NuageVsdClient \<Rightarrow> (error + string) \<times> 'w NuageVsdClient" where
  "CreateSubnet h name zoneID subnet c =
     (case session h (POST (ZoneSubnets zoneID)
                        (PSubnet \<lparr>sn_IPType = ''IPV4'',
                                  sn_Address = IPv4Address_String (Address subnet),
                                  sn_Netmask = IPv4Address_String (Netmask subnet),
                                  sn_Description = ''Auto-generated subnet'',
                                  sn_Name = name\<rparr>)) c of
        (TransportError, c1) \<Rightarrow> (Inl Transport, c1)
      | (Response st r, c1) \<Rightarrow>
          if st = 201 then (Inr (res_ID r), c1)
          else if st = 409 then GetSubnetID h zoneID subnet c1
          else (Inl (UnexpectedStatus st), c1))"

definition CreateNetworkMacroGroup ::
  "'w http \<Rightarrow> string \<Rightarrow> string \<Rightarrow> 'w NuageVsdClient \<Rightarrow> (error + string) \<times> 'w NuageVsdClient" where
  "CreateNetworkMacroGroup h entID zoneName c =
     (case session h (POST (MacroGroups entID)
                        (PObject \<lparr>ob_Name = ''Service Group For Zone - '' @ zoneName,
                                  ob_Description = ''Auto-generated network macro group for zone - '' @ zoneName\<rparr>)) c of
        (TransportError, c1) \<Rightarrow> (Inl Transport, c1)
      | (Response st r, c1) \<Rightarrow>
          if st = 201 then (Inr (res_ID r), c1)
          else if st = 409 then
            GetNetworkMacroGroupID h entID (''Service Group For Zone - '' @ zoneName) c1
          else (Inl (UnexpectedStatus st), c1))"

definition CreateNetworkMacro ::
  "'w http \<Rightarrow> string \<Rightarrow> VsdNetworkMacro \<Rightarrow> 'w NuageVsdClient \<Rightarrow> (error + string) \<times> 'w NuageVsdClient" where
  "CreateNetworkMacro h entID networkMacro c =
     (case session h (POST (EnterpriseNetworks entID) (PMacro networkMacro)) c of
        (TransportError, c1) \<Rightarrow> (Inl Transport, c1)
      | (Response st r, c1) \<Rightarrow>
          if st = 201 then (Inr (res_ID r), c1)
          else if st = 409 then GetNetworkMacroID h entID networkMacro c1
          else (Inl (UnexpectedStatus st), c1))"

definition DeleteNetworkMacro ::
  "'w http \<Rightarrow> string \<Rightarrow> 'w NuageVsdClient \<Rightarrow> error option \<times> 'w NuageVsdClient" where
  "DeleteNetworkMacro h networkMacroID c =
     (case session h (DELETE (EnterpriseNetwork networkMacroID)) c of
        (TransportError, c1) \<Rightarrow> (Some Transport, c1)
      | (Response st r, c1) \<Rightarrow>
          if st = 204 then (None, c1) else (Some (UnexpectedStatus st), c1))"

subsection \<open>ACL entries\<close>

text \<open>
  Modelled from the spec: \<open>GetAclEntry\<close> and \<open>CreateAclEntry\<close>, which the client calls
  and which are not among the sources. The spec (4.2): every create operation posts the
  payload; status created returns the new id; status conflict issues a filter-qualified
  GET that selects the existing object, and returns its id (an empty list is NotFound);
  any other status is an error. For ACL entries the payload is sent as it is, and the
  template id and the direction choose the URL.
\<close>

definition GetAclEntry ::
  "'w http \<Rightarrow> string \<Rightarrow> bool \<Rightarrow> VsdAclEntry \<Rightarrow> 'w NuageVsdClient \<Rightarrow> (error + string) \<times> 'w NuageVsdClient" where
  "GetAclEntry h aclTemplateID ingress aclEntry c =
     (case session h (GET (AclEntries aclTemplateID ingress) (FAcl aclEntry)) c of
        (TransportError, c1) \<Rightarrow> (Inl Transport, c1)
      | (Response st r, c1) \<Rightarrow>
          if st = 200 then
            (if res_ID r = [] then (Inl NotFound, c1) else (Inr (res_ID r), c1))
          else (Inl (UnexpectedStatus st), c1))"

text \<open>
  Modelled from the spec: \<open>CreateAclEntry\<close>, create-or-get for one ACL entry of the
  template \<open>aclTemplateID\<close>, at the ingress or at the egress endpoint.
\<close>

definition CreateAclEntry ::
  "'w http \<Rightarrow> string \<Rightarrow> bool \<Rightarrow> VsdAclEntry \<Rightarrow> 'w NuageVsdClient \<Rightarrow> (error + string) \<times> 'w NuageVsdClient" where
  "CreateAclEntry h aclTemplateID ingress aclEntry c =
     (case session h (POST (AclEntries aclTemplateID ingress) (PAcl aclEntry)) c of
        (TransportError, c1) \<Rightarrow> (Inl Transport, c1)
      | (Response st r, c1) \<Rightarrow>
          if st = 201 then (Inr (res_ID r), c1)
          else if st = 409 then GetAclEntry h aclTemplateID ingress aclEntry c1
          else (Inl (UnexpectedStatus st), c1))"

text \<open>The two baseline entries, as \<open>CreateIngressAclEntries\<close> and \<open>CreateEgressAclEntries\<close> build them.\<close>

definition intra_zone_entry :: VsdAclEntry where
  "intra_zone_entry =
     \<lparr>Action = ''FORWARD'', Description = ''Allow Intra-Zone Traffic'',
      EntityScope = ''ENTERPRISE'', EtherType = ''0x800'', LocationID = '''',
      LocationType = ''ANY'', NetworkID = '''', NetworkType = ''ENDPOINT_ZONE'',
      PolicyState = ''LIVE'', Priority = 0, Protocol = ''ANY'', Reflexive = False\<rparr>"

definition intra_domain_entry :: VsdAclEntry where
  "intra_domain_entry =
     intra_zone_entry\<lparr>Action := ''DROP'', Description := ''Drop intra-domain traffic'',
                      EtherType := ''0x800'', NetworkType := ''ENDPOINT_DOMAIN'',
                      Priority := 1000000000\<rparr>"

text \<open>
  In both functions an error of the second \<open>CreateAclEntry\<close> is logged and dropped: the
  function returns \<open>nil\<close>.
\<close>

definition CreateIngressAclEntries ::
  "'w http \<Rightarrow> 'w NuageVsdClient \<Rightarrow> error option \<times> 'w NuageVsdClient" where
  "CreateIngressAclEntries h c =
     (case CreateAclEntry h (ingressAclTemplateID c) True intra_zone_entry c of
        (Inl e, c1) \<Rightarrow> (Some e, c1)
      | (Inr _, c1) \<Rightarrow>
          (case CreateAclEntry h (ingressAclTemplateID c1) True intra_domain_entry c1 of
             (_, c2) \<Rightarrow> (None, c2)))"

definition CreateEgressAclEntries ::
  "'w http \<Rightarrow> 'w NuageVsdClient \<Rightarrow> error option \<times> 'w NuageVsdClient" where
  "CreateEgressAclEntries h c =
     (case CreateAclEntry h (egressAclTemplateID c) False intra_zone_entry c of
        (Inl e, c1) \<Rightarrow> (Some e, c1)
      | (Inr _, c1) \<Rightarrow>
          (case CreateAclEntry h (ingressAclTemplateID c1) False intra_domain_entry c1 of
             (_, c2) \<Rightarrow> (None, c2)))"

definition CreateIngressAclTemplate ::
  "'w http \<Rightarrow> string \<Rightarrow> 'w NuageVsdClient \<Rightarrow> (error + string) \<times> 'w NuageVsdClient" where
  "CreateIngressAclTemplate h domID c =
     (case session h (POST (IngressAclTemplates domID)
                        (PAclTemplate \<lparr>tpl_Name = ''Auto-generated Ingress Policies'',
                                       DefaultAllowIP = True, DefaultAllowNonIP = True\<rparr>)) c of
        (TransportError, c1) \<Rightarrow> (Inl Transport, c1)
      | (Response st r, c1) \<Rightarrow>
          if st = 201 then
            (case CreateIngressAclEntries h (c1\<lparr>ingressAclTemplateID := res_ID r\<rparr>) of
               (Some e, c2) \<Rightarrow> (Inl e, c2)
             | (None, c2) \<Rightarrow> (Inr (ingressAclTemplateID c2), c2))
          else if st = 409 then
            (case GetIngressAclTemplateID h domID ''Auto-generated Ingress Policies'' c1 of
               (Inl e, c2) \<Rightarrow> (Inl e, c2\<lparr>ingressAclTemplateID := ''''\<rparr>)
             | (Inr tid, c2) \<Rightarrow>
                 (case CreateIngressAclEntries h (c2\<lparr>ingressAclTemplateID := tid\<rparr>) of
                    (Some e, c3) \<Rightarrow> (Inl e, c3)
                  | (None, c3) \<Rightarrow> (Inr (ingressAclTemplateID c3), c3)))
          else (Inl (UnexpectedStatus st), c1))"

definition CreateEgressAclTemplate ::
  "'w http \<Rightarrow> string \<Rightarrow> 'w NuageVsdClient \<Rightarrow> (error + string) \<times> 'w NuageVsdClient" where
  "CreateEgressAclTemplate h domID c =
     (case session h (POST (EgressAclTemplates domID)
                        (PAclTemplate \<lparr>tpl_Name = ''Auto-generated Egress Policies'',
                                       DefaultAllowIP = True, DefaultAllowNonIP = True\<rparr>)) c of
        (TransportError, c1) \<Rightarrow> (Inl Transport, c1)
      | (Response st r, c1) \<Rightarrow>
          if st = 201 then
            (case CreateEgressAclEntries h (c1\<lparr>egressAclTemplateID := res_ID r\<rparr>) of
               (Some e, c2) \<Rightarrow> (Inl e, c2)
             | (None, c2) \<Rightarrow> (Inr (egressAclTemplateID c2), c2))
          else if st = 409 then
            (case GetEgressAclTemplateID h domID ''Auto-generated Egress Policies'' c1 of
               (Inl e, c2) \<Rightarrow> (Inl e, c2\<lparr>egressAclTemplateID := ''''\<rparr>)
             | (Inr tid, c2) \<Rightarrow>
                 (case CreateEgressAclEntries h (c2\<lparr>egressAclTemplateID := tid\<rparr>) of
                    (Some e, c3) \<Rightarrow> (Inl e, c3)
                  | (None, c3) \<Rightarrow> (Inr (egressAclTemplateID c3), c3)))
          else (Inl (UnexpectedStatus st), c1))"


subsection \<open>The priority allocator\<close>

text \<open>
  \<open>NextAvailablePriority\<close> returns the counter and, through its deferred call,
  increments it afterwards.
\<close>

definition NextAvailablePriority :: "'w NuageVsdClient \<Rightarrow> int \<times> 'w NuageVsdClient" where
  "NextAvailablePriority c =
     (nextAvailablePriority c, c\<lparr>nextAvailablePriority := nextAvailablePriority c + 1\<rparr>)"

definition SetNextAvailablePriority :: "int \<Rightarrow> 'w NuageVsdClient \<Rightarrow> 'w NuageVsdClient" where
  "SetNextAvailablePriority val c = c\<lparr>nextAvailablePriority := val\<rparr>"

subsection \<open>ACLs of a zone\<close>

text \<open>
  Both functions first create the macro group and record it. When the namespace is
  already in \<open>nvsdc.namespaces\<close>, the source assigns the group id to a copy of the map
  entry (\<open>nsd\<close>), so the map is left as it is.
\<close>

definition record_macro_group ::
  "string \<Rightarrow> string \<Rightarrow> string \<Rightarrow> 'w NuageVsdClient \<Rightarrow> 'w NuageVsdClient" where
  "record_macro_group zoneName zoneID nmgid c =
     (case namespaces c zoneName of
        Some nsd \<Rightarrow> c
      | None \<Rightarrow>
          c\<lparr>namespaces := (namespaces c)
               (zoneName \<mapsto> \<lparr>ZoneID = zoneID, NetworkMacroGroupID = nmgid,
                              NetworkMacros = Map.empty\<rparr>)\<rparr>)"

text \<open>\<open>nvsdc.namespaces[zoneName].ZoneID\<close>: the empty string when the key is absent.\<close>

definition namespace_ZoneID :: "'w NuageVsdClient \<Rightarrow> string \<Rightarrow> string" where
  "namespace_ZoneID c zoneName = (case namespaces c zoneName of Some nsd \<Rightarrow> ZoneID nsd | None \<Rightarrow> [])"

definition namespace_NetworkMacroGroupID :: "'w NuageVsdClient \<Rightarrow> string \<Rightarrow> string" where
  "namespace_NetworkMacroGroupID c zoneName =
     (case namespaces c zoneName of Some nsd \<Rightarrow> NetworkMacroGroupID nsd | None \<Rightarrow> [])"

definition CreateDefaultZoneAcls ::
  "'w http \<Rightarrow> string \<Rightarrow> 'w NuageVsdClient \<Rightarrow> error option \<times> 'w NuageVsdClient" where
  "CreateDefaultZoneAcls h zoneID c =
     (case CreateNetworkMacroGroup h (enterpriseID c) ''default'' c of
        (Inl e, c1) \<Rightarrow> (Some e, c1)
      | (Inr nmgid, c1) \<Rightarrow>
          (let c2 = record_macro_group ''default'' zoneID nmgid c1;
               aclEntry =
                 \<lparr>Action = ''FORWARD'',
                  Description = ''Allow Traffic Between All Zones and Default Zone'',
                  EntityScope = ''ENTERPRISE'', EtherType = ''0x800'', LocationID = [],
                  LocationType = ''ANY'', NetworkID = nmgid,
                  NetworkType = ''NETWORK_MACRO_GROUP'', PolicyState = ''LIVE'',
                  Priority = 1, Protocol = ''ANY'', Reflexive = False\<rparr>
           in case CreateAclEntry h (ingressAclTemplateID c2) True aclEntry c2 of
                (Inl e, c3) \<Rightarrow> (Some e, c3)
              | (Inr _, c3) \<Rightarrow>
                  (case CreateAclEntry h (egressAclTemplateID c3) False aclEntry c3 of
                     (Inl e, c4) \<Rightarrow> (Some e, c4)
                   | (Inr _, c4) \<Rightarrow> (None, c4))))"

definition CreateSpecificZoneAcls ::
  "'w http \<Rightarrow> string \<Rightarrow> string \<Rightarrow> 'w NuageVsdClient \<Rightarrow> error option \<times> 'w NuageVsdClient" where
  "CreateSpecificZoneAcls h zoneName zoneID c =
     (case CreateNetworkMacroGroup h (enterpriseID c) zoneName c of
        (Inl e, c1) \<Rightarrow> (Some e, c1)
      | (Inr nmgid, c1) \<Rightarrow>
          (let c2 = record_macro_group zoneName zoneID nmgid c1;
               (p, c3) = NextAvailablePriority c2;
               aclEntry =
                 \<lparr>Action = ''FORWARD'',
                  Description = ''Allow Traffic Between Zone - '' @ zoneName @ '' And Its Services'',
                  EntityScope = ''ENTERPRISE'', EtherType = ''0x800'',
                  LocationID = namespace_ZoneID c2 zoneName,
                  LocationType = ''ZONE'', NetworkID = nmgid,
                  NetworkType = ''NETWORK_MACRO_GROUP'', PolicyState = ''LIVE'',
                  Priority = 300 + p, Protocol = ''ANY'', Reflexive = False\<rparr>
           in case CreateAclEntry h (ingressAclTemplateID c3) True aclEntry c3 of
                (Inl e, c4) \<Rightarrow> (Some e, c4)
              | (Inr _, c4) \<Rightarrow>
                  (let c5 = SetNextAvailablePriority (Priority aclEntry + 1) c4
                   in case CreateAclEntry h (egressAclTemplateID c5) False aclEntry c5 of
                        (Inl e, c6) \<Rightarrow> (Some e, c6)
                      | (Inr _, c6) \<Rightarrow>
                          (None, SetNextAvailablePriority (Priority aclEntry + 1) c6))))"

subsection \<open>Namespace events\<close>

text \<open>
  The arm \<open>case api.Added\<close> of \<open>HandleNsEvent\<close>, for the namespace \<open>name\<close>:
  first the choice between the ACLs of the default zone and those of any other zone,
  which both branches of the arm make, then the arm itself. In the branch for a
  namespace that is not tracked, the assignment \<open>nvsdc.zones[nsEvent.Name] = zoneID\<close>
  follows \<open>CreateZone\<close>; it panics when \<open>zones\<close> is the nil map.
\<close>

definition create_zone_acls ::
  "'w http \<Rightarrow> string \<Rightarrow> string \<Rightarrow> 'w NuageVsdClient \<Rightarrow> error option \<times> 'w NuageVsdClient" where
  "create_zone_acls h name zoneID c =
     (if name = ''default'' then CreateDefaultZoneAcls h zoneID c
      else CreateSpecificZoneAcls h name zoneID c)"

definition HandleNsEvent_Added ::
  "'w http \<Rightarrow> string \<Rightarrow> 'w NuageVsdClient \<Rightarrow> error option \<times> 'w NuageVsdClient" where
  "HandleNsEvent_Added h name c =
     (case namespaces c name of
        None \<Rightarrow>
          (case CreateZone h (domainID c) name c of
             (Inl e, c1) \<Rightarrow> (Some e, c1)
           | (Inr zoneID, c1) \<Rightarrow>
               (case zones c1 of
                  None \<Rightarrow> (Some PanicNilMap, c1)
                | Some zs \<Rightarrow>
                    (let c2 = c1\<lparr>zones := Some (zs(name \<mapsto> zoneID))\<rparr>
                     in case Alloc (32 - subnetSize c2) (pool c2) of
                          (Inl e, pool1) \<Rightarrow> (Some e, c2\<lparr>pool := pool1\<rparr>)
                        | (Inr subnet, pool1) \<Rightarrow>
                            (case CreateSubnet h (name @ ''-0'') zoneID subnet (c2\<lparr>pool := pool1\<rparr>) of
                               (Inl e, c3) \<Rightarrow>
                                 (case Free subnet (pool c3) of
                                    (Some e', pool2) \<Rightarrow>
                                      (Some (if is_panic e' then e' else e), c3\<lparr>pool := pool2\<rparr>)
                                  | (None, pool2) \<Rightarrow> (Some e, c3\<lparr>pool := pool2\<rparr>))
                             | (Inr subnetID, c3) \<Rightarrow>
                                 create_zone_acls h name zoneID
                                   (c3\<lparr>subnets := (subnets c3)(zoneID \<mapsto> [(subnetID, subnet)])\<rparr>)))))
      | Some nsd \<Rightarrow>
          (case GetZoneID h (domainID c) name c of
             (Inl e, c1) \<Rightarrow> (Some e, c1)
           | (Inr zid, c1) \<Rightarrow>
               if zid = [] then (Some InvalidZoneID, c1)
               else
                 (case create_zone_acls h name zid c1 of
                    (Some e, c2) \<Rightarrow> (Some e, c2)
                  | (None, c2) \<Rightarrow>
                      (None, c2\<lparr>namespaces := (namespaces c2)
                                   (name \<mapsto> \<lparr>ZoneID = zid, NetworkMacroGroupID = [],
                                              NetworkMacros = Map.empty\<rparr>)\<rparr>))))"

subsection \<open>Service events\<close>

datatype eventType = Added | Deleted

record ServiceEvent =
  ev_Type :: eventType
  ev_Namespace :: string
  ev_Name :: string
  ev_ClusterIP :: string
  NuageAnnotations :: "string \<rightharpoonup> string"

text \<open>
  The first step of the arm \<open>case api.Added\<close>: the macro group named by the annotations
  \<open>network-macro-group.id\<close> or \<open>network-macro-group.name\<close>, the empty string when there
  is neither.
\<close>

definition annotated_group ::
  "'w http \<Rightarrow> ServiceEvent \<Rightarrow> 'w NuageVsdClient \<Rightarrow> (error + string) \<times> 'w NuageVsdClient" where
  "annotated_group h ev c =
     (case NuageAnnotations ev ''network-macro-group.id'' of
        Some nmgID \<Rightarrow> (Inr nmgID, c)
      | None \<Rightarrow>
          (case NuageAnnotations ev ''network-macro-group.name'' of
             None \<Rightarrow> (Inr [], c)
           | Some nmgName \<Rightarrow>
               (case GetNetworkMacroGroupID h (enterpriseID c) nmgName c of
                  (Inl e, c1) \<Rightarrow> (Inl IncorrectAnnotation, c1)
                | (Inr nmgID, c1) \<Rightarrow> (Inr nmgID, c1))))"

text \<open>The check of the annotation \<open>zone\<close>: the error that it returns, if any.\<close>

definition zone_annotation_error :: "ServiceEvent \<Rightarrow> string \<Rightarrow> 'w NuageVsdClient \<Rightarrow> error option" where
  "zone_annotation_error ev nmgID c =
     (case NuageAnnotations ev ''zone'' of
        None \<Rightarrow> None
      | Some v \<Rightarrow>
          (case namespaces c v of
             Some nsd \<Rightarrow> if v \<noteq> ev_Namespace ev then Some IncorrectAnnotation else None
           | None \<Rightarrow> if nmgID = [] then Some InsufficientAnnotation else None))"

definition HandleServiceEvent ::
  "'w http \<Rightarrow> ServiceEvent \<Rightarrow> 'w NuageVsdClient \<Rightarrow> error option \<times> 'w NuageVsdClient" where
  "HandleServiceEvent h ev c =
     (case ev_Type ev of
        Added \<Rightarrow>
          (case annotated_group h ev c of
             (Inl e, c1) \<Rightarrow> (Some e, c1)
           | (Inr nmgID0, c1) \<Rightarrow>
               (case zone_annotation_error ev nmgID0 c1 of
                  Some e \<Rightarrow> (Some e, c1)
                | None \<Rightarrow>
                    (let nmgID = (if nmgID0 = []
                                  then namespace_NetworkMacroGroupID c1 (ev_Namespace ev)
                                  else nmgID0);
                         networkMacro =
                           \<lparr>nm_Name = ''NetworkMacro for service: '' @ ev_Namespace ev @ ''/'' @ ev_Name ev,
                            nm_IPType = ''IPV4'', nm_Address = ev_ClusterIP ev,
                            nm_Netmask = ''255.255.255.255''\<rparr>
                     in case CreateNetworkMacro h (enterpriseID c1) networkMacro c1 of
                          (Inl e, c2) \<Rightarrow> (None, c2)
                        | (Inr networkMacroID, c2) \<Rightarrow>
                            (case namespaces c2 (ev_Namespace ev) of
                               None \<Rightarrow> (Some PanicNilMap, c2)
                             | Some nsd \<Rightarrow>
                                 (let c3 = c2\<lparr>namespaces := (namespaces c2)
                                              (ev_Namespace ev \<mapsto>
                                                 nsd\<lparr>NetworkMacros :=
                                                       (NetworkMacros nsd)(ev_Name ev \<mapsto> networkMacroID)\<rparr>)\<rparr>
                                  in case session h (PUT (GroupMembers nmgID) (PIds [networkMacroID])) c3 of
                                       (TransportError, c4) \<Rightarrow> (Some Transport, c4)
                                     | (Response st r, c4) \<Rightarrow>
                                         if st = 204 \<or> st = 409 then (None, c4)
                                         else (Some (UnexpectedStatus st), c4))))))
      | Deleted \<Rightarrow>
          (case namespaces c (ev_Namespace ev) of
             None \<Rightarrow> (None, c)
           | Some nsd \<Rightarrow>
               (case NetworkMacros nsd (ev_Name ev) of
                  None \<Rightarrow> (None, c)
                | Some nmID \<Rightarrow>
                    (case DeleteNetworkMacro h nmID c of
                       (Some e, c1) \<Rightarrow> (Some e, c1)
                     | (None, c1) \<Rightarrow>
                         (case namespaces c1 (ev_Namespace ev) of
                            None \<Rightarrow> (None, c1)
                          | Some nsd1 \<Rightarrow>
                              (None, c1\<lparr>namespaces := (namespaces c1)
                                           (ev_Namespace ev \<mapsto>
                                              nsd1\<lparr>NetworkMacros :=
                                                     (NetworkMacros nsd1)(nmID := None)\<rparr>)\<rparr>))))))"

section \<open>A model of the SDN\<close>

text \<open>
  Modelled from the spec: the SDN itself, which is outside the repository and which the
  reconciliation claims are about. The spec gives its contract (4.2, 4.3 and 6):
  resources live in collections; a POST creates an object and answers 201 with its id,
  or answers 409 when an object with the same natural key is already in the collection;
  a filtered GET answers 200 with the object that the filter selects, or with a
  zero-valued element; a DELETE answers 204; a PUT of a member that is already present
  answers 409. The natural keys are those of the table in 4.2: the name for zones, macro
  groups and ACL templates, the address for subnets, the four fields for network macros.
  For ACL entries the spec gives one rule (4.3): priorities are unique within a
  template. The model does not check that the parent of a collection exists, and it
  answers 404 to every request that the client code never sends.
\<close>

record Vsd =
  objects :: "(endpoint \<times> string \<times> payload) list"
  members :: "(string \<times> string) list"
  next_id :: nat

fun same_key :: "payload \<Rightarrow> payload \<Rightarrow> bool" where
  "same_key (PObject a) (PObject b) = (ob_Name a = ob_Name b)"
| "same_key (PSubnet a) (PSubnet b) = (sn_Address a = sn_Address b)"
| "same_key (PMacro a) (PMacro b) =
     (nm_Name a = nm_Name b \<and> nm_IPType a = nm_IPType b
      \<and> nm_Address a = nm_Address b \<and> nm_Netmask a = nm_Netmask b)"
| "same_key (PAclTemplate a) (PAclTemplate b) = (tpl_Name a = tpl_Name b)"
| "same_key (PAcl a) (PAcl b) = (Priority a = Priority b)"
| "same_key _ _ = False"

fun selects :: "filter_expr \<Rightarrow> payload \<Rightarrow> bool" where
  "selects (FName n) (PObject a) = (ob_Name a = n)"
| "selects (FName n) (PAclTemplate a) = (tpl_Name a = n)"
| "selects (FAddress x) (PSubnet a) = (sn_Address a = x)"
| "selects (FMacro n t x m) (PMacro a) =
     (nm_Name a = n \<and> nm_IPType a = t \<and> nm_Address a = x \<and> nm_Netmask a = m)"
| "selects (FAcl e) (PAcl a) = (Priority a = Priority e)"
| "selects _ _ = False"

definition zero_result :: VsdResult where
  "zero_result = \<lparr>res_ID = [], res_Name = [], res_IPType = [], res_Address = [], res_Netmask = []\<rparr>"

fun result_of :: "string \<Rightarrow> payload \<Rightarrow> VsdResult" where
  "result_of i (PObject a) = zero_result\<lparr>res_ID := i, res_Name := ob_Name a\<rparr>"
| "result_of i (PSubnet a) =
     zero_result\<lparr>res_ID := i, res_Name := sn_Name a, res_IPType := sn_IPType a,
                  res_Address := sn_Address a, res_Netmask := sn_Netmask a\<rparr>"
| "result_of i (PMacro a) =
     zero_result\<lparr>res_ID := i, res_Name := nm_Name a, res_IPType := nm_IPType a,
                  res_Address := nm_Address a, res_Netmask := nm_Netmask a\<rparr>"
| "result_of i (PAclTemplate a) = zero_result\<lparr>res_ID := i, res_Name := tpl_Name a\<rparr>"
| "result_of i (PAcl a) = zero_result\<lparr>res_ID := i\<rparr>"
| "result_of i (PIds a) = zero_result\<lparr>res_ID := i\<rparr>"

text \<open>The collection that a GET reads: \<open>networkmacros\<close> lists the enterprise networks.\<close>

fun collection :: "endpoint \<Rightarrow> endpoint" where
  "collection (NetworkMacroList e) = EnterpriseNetworks e"
| "collection ep = ep"

fun is_collection :: "endpoint \<Rightarrow> bool" where
  "is_collection (GroupMembers g) = False"
| "is_collection (EnterpriseNetwork m) = False"
| "is_collection (NetworkMacroList e) = False"
| "is_collection ep = True"

fun find_object ::
  "(payload \<Rightarrow> bool) \<Rightarrow> endpoint \<Rightarrow> (endpoint \<times> string \<times> payload) list \<Rightarrow> (string \<times> payload) option"
where
  "find_object P ep [] = None"
| "find_object P ep ((ep', i, p) # rest) =
     (if ep' = ep \<and> P p then Some (i, p) else find_object P ep rest)"

fun remove_id :: "string \<Rightarrow> (endpoint \<times> string \<times> payload) list \<Rightarrow> (endpoint \<times> string \<times> payload) list"
where
  "remove_id i [] = []"
| "remove_id i ((ep, j, p) # rest) = (if j = i then remove_id i rest else (ep, j, p) # remove_id i rest)"

fun has_id :: "string \<Rightarrow> (endpoint \<times> string \<times> payload) list \<Rightarrow> bool" where
  "has_id i [] = False"
| "has_id i ((ep, j, p) # rest) = (j = i \<or> has_id i rest)"

text \<open>
  Modelled from the spec: the answer of the SDN to one request, and its state
  afterwards. New ids are the decimal numbers 1, 2, 3, ... in the order of creation.
\<close>

fun vsd_http :: "Vsd http" where
  "vsd_http (POST ep p) w =
     (if \<not> is_collection ep then (Response 404 zero_result, w)
      else
        (case find_object (same_key p) ep (objects w) of
           Some found \<Rightarrow> (Response 409 zero_result, w)
         | None \<Rightarrow>
             (Response 201 (result_of (dec (next_id w)) p),
              w\<lparr>objects := objects w @ [(ep, dec (next_id w), p)], next_id := next_id w + 1\<rparr>)))"
| "vsd_http (GET ep f) w =
     (case find_object (selects f) (collection ep) (objects w) of
        Some (i, p) \<Rightarrow> (Response 200 (result_of i p), w)
      | None \<Rightarrow> (Response 200 zero_result, w))"
| "vsd_http (PUT (GroupMembers g) (PIds [m])) w =
     (if (g, m) \<in> set (members w) then (Response 409 zero_result, w)
      else (Response 204 zero_result, w\<lparr>members := members w @ [(g, m)]\<rparr>))"
| "vsd_http (PUT ep p) w = (Response 404 zero_result, w)"
| "vsd_http (DELETE (EnterpriseNetwork m)) w =
     (if has_id m (objects w)
      then (Response 204 zero_result, w\<lparr>objects := remove_id m (objects w)\<rparr>)
      else (Response 404 zero_result, w))"
| "vsd_http (DELETE ep) w = (Response 404 zero_result, w)"

text \<open>
  What the model holds: every ACL entry with its collection and its priority, in the
  order of creation, and the ids of the objects of one collection.
\<close>

fun acl_table :: "(endpoint \<times> string \<times> payload) list \<Rightarrow> (endpoint \<times> int) list" where
  "acl_table [] = []"
| "acl_table ((ep, i, PAcl a) # rest) = (ep, Priority a) # acl_table rest"
| "acl_table (other # rest) = acl_table rest"

fun collection_ids :: "endpoint \<Rightarrow> (endpoint \<times> string \<times> payload) list \<Rightarrow> string list" where
  "collection_ids ep [] = []"
| "collection_ids ep ((ep', i, p) # rest) =
     (if ep' = ep then i # collection_ids ep rest else collection_ids ep rest)"

section \<open>Scenarios on the client\<close>

text \<open>A session that gives the same answer to every request.\<close>

definition answer :: "response \<Rightarrow> unit http" where
  "answer resp req w = (resp, w)"

text \<open>
  The client at the point of \<open>Init\<close> where the domain exists and the ACL templates are
  about to be created: \<open>namespaces\<close> and \<open>subnets\<close> are made and empty, \<open>zones\<close> is
  nil, the pool holds the cluster CIDR \<open>10.128.0.0/14\<close>, subnets have 8 bits, and the
  priority counter is 0.
\<close>

definition client_before_templates :: "'w \<Rightarrow> 'w NuageVsdClient" where
  "client_before_templates w =
     \<lparr>enterpriseID = ''ent'', domainID = ''dom'', zones = None, subnets = Map.empty,
      namespaces = Map.empty, pool = snd (Free (cidr 10 128 0 0 14) empty_pool),
      subnetSize = 8, ingressAclTemplateID = [], egressAclTemplateID = [],
      nextAvailablePriority = 0, vsd = w, sent = []\<rparr>"

text \<open>The last two steps of \<open>Init\<close> against the model of the SDN, which starts empty.\<close>

definition ingress_created :: "Vsd NuageVsdClient" where
  "ingress_created =
     snd (CreateIngressAclTemplate vsd_http ''dom''
            (client_before_templates \<lparr>objects = [], members = [], next_id = 1\<rparr>))"

definition bootstrapped :: "Vsd NuageVsdClient" where
  "bootstrapped = snd (CreateEgressAclTemplate vsd_http ''dom'' ingress_created)"

text \<open>The first event after \<open>Init\<close>: Added for the namespace \<open>alpha\<close>.\<close>

definition added_once :: "Vsd NuageVsdClient" where
  "added_once = snd (HandleNsEvent_Added vsd_http ''alpha'' bootstrapped)"

text \<open>
  The methods \<open>CreateZone\<close> and \<open>CreateSpecificZoneAcls\<close> called one after the other
  on the client that \<open>Init\<close> leaves: the zone \<open>alpha\<close> gets the id 7.
\<close>

definition zone_created :: "Vsd NuageVsdClient" where
  "zone_created = snd (CreateZone vsd_http ''dom'' ''alpha'' bootstrapped)"

definition acls_created :: "Vsd NuageVsdClient" where
  "acls_created = snd (CreateSpecificZoneAcls vsd_http ''alpha'' ''7'' zone_created)"

text \<open>The ACL posts among a list of requests: template id, direction and priority.\<close>

fun acl_posts :: "request list \<Rightarrow> (string \<times> bool \<times> int) list" where
  "acl_posts [] = []"
| "acl_posts (POST (AclEntries t i) (PAcl e) # rs) = (t, i, Priority e) # acl_posts rs"
| "acl_posts (r # rs) = acl_posts rs"

text \<open>
  \<open>talks ps c c'\<close>: from \<open>c\<close> to \<open>c'\<close> the client has only talked to the SDN (no field
  but \<open>vsd\<close> and \<open>sent\<close> has changed), and the ACL posts among the requests it has sent
  are \<open>ps\<close>.
\<close>

definition talks ::
  "(string \<times> bool \<times> int) list \<Rightarrow> 'w NuageVsdClient \<Rightarrow> 'w NuageVsdClient \<Rightarrow> bool" where
  "talks ps c c' \<longleftrightarrow> (\<exists>w rs. c' = c\<lparr>vsd := w, sent := sent c @ rs\<rparr> \<and> acl_posts rs = ps)"

text \<open>\<open>nvsdc.namespaces[ns].NetworkMacros[svc]\<close>, with \<open>None\<close> for an absent key.\<close>

definition namespace_macro :: "'w NuageVsdClient \<Rightarrow> string \<Rightarrow> string \<Rightarrow> string option" where
  "namespace_macro c ns svc =
     (case namespaces c ns of None \<Rightarrow> None | Some nsd \<Rightarrow> NetworkMacros nsd svc)"

text \<open>
  The service \<open>web\<close> of the namespace \<open>alpha\<close> with cluster IP \<open>172.30.1.5\<close> and no
  annotation: its Added and its Deleted event, processed once \<open>alpha\<close> is tracked.
\<close>

definition web_event :: "eventType \<Rightarrow> ServiceEvent" where
  "web_event t =
     \<lparr>ev_Type = t, ev_Namespace = ''alpha'', ev_Name = ''web'',
      ev_ClusterIP = ''172.30.1.5'', NuageAnnotations = Map.empty\<rparr>"

definition service_added :: "Vsd NuageVsdClient" where
  "service_added = snd (HandleServiceEvent vsd_http (web_event Added) acls_created)"

definition service_deleted :: "Vsd NuageVsdClient" where
  "service_deleted = snd (HandleServiceEvent vsd_http (web_event Deleted) service_added)"

text \<open>
  The network macro of that service, and two records that a filtered GET may return: one
  with the name of the macro but another address and netmask, one with another name.
\<close>

definition web_macro :: VsdNetworkMacro where
  "web_macro =
     \<lparr>nm_Name = ''NetworkMacro for service: alpha/web'', nm_IPType = ''IPV4'',
      nm_Address = ''172.30.1.5'', nm_Netmask = ''255.255.255.255''\<rparr>"

definition same_name_record :: VsdResult where
  "same_name_record =
     \<lparr>res_ID = ''42'', res_Name = ''NetworkMacro for service: alpha/web'',
      res_IPType = ''IPV4'', res_Address = ''10.9.9.9'', res_Netmask = ''255.255.255.0''\<rparr>"

definition other_name_record :: VsdResult where
  "other_name_record =
     \<lparr>res_ID = ''43'', res_Name = ''NetworkMacro for service: beta/db'',
      res_IPType = ''IPV4'', res_Address = ''172.30.1.5'', res_Netmask = ''255.255.255.255''\<rparr>"



section \<open>Properties of subnets and of the pool\<close>

subsection \<open>Arithmetic of the octet index\<close>

lemma sdiv_nonneg: "0 \<le> (k::int) \<Longrightarrow> k sdiv 8 = k div 8"
  by (cases "k = 0") (simp_all add: signed_divide_int_def)

lemma index_in_range: "0 \<le> (k::int) \<Longrightarrow> k \<le> 31 \<Longrightarrow> \<not> (k sdiv 8 < 0 \<or> 3 < k sdiv 8)"
  unfolding sdiv_nonneg by linarith

lemmas pool_eval = Alloc.simps Split_def Split_loop.simps Free_def Compare_def wrap64_def
  signed_divide_int_def signed_modulo_int_def Let_def cidr_def

subsection \<open>Compare\<close>

lemma Compare_self: "0 \<le> CIDRMask s \<Longrightarrow> CIDRMask s \<le> 31 \<Longrightarrow> Compare s s = Inr 0"
  using index_in_range [of "CIDRMask s"] by (simp add: Compare_def wrap64_def Let_def)

text \<open>
  With equal masks the result is the value of a \<open>uint8\<close>, so it is never negative: the
  branch \<open>subnet.Compare(curr.subnet) < 0\<close> of \<open>Free\<close> is never taken.
\<close>

lemma Compare_nonneg:
  "CIDRMask a = CIDRMask b \<Longrightarrow> Compare a b = Inr r \<Longrightarrow> 0 \<le> r"
  by (auto simp: Compare_def wrap64_def Let_def split: if_splits)

text \<open>
  When the mask is a multiple of 8 the octet mask is 0, and any two subnets of that mask
  compare as equal.
\<close>

lemma Compare_octet_boundary:
  "CIDRMask a = CIDRMask b \<Longrightarrow> CIDRMask a \<in> {0, 8, 16, 24} \<Longrightarrow> Compare a b = Inr 0"
  by (auto simp: Compare_def wrap64_def Let_def signed_divide_int_def signed_modulo_int_def)

text \<open>
  C4 (subnet ordering). The claim: \<open>Compare a b\<close> is positive exactly when \<open>a\<close> has the
  smaller mask, or the masks are equal and the masked address of \<open>a\<close> (all prefix octets
  considered) is greater; it is zero exactly when masks and masked addresses are equal.
  The code does not do this. \<open>10.0.0.0/24\<close> and \<open>10.0.1.0/24\<close> differ in their prefix but
  compare as 0 (the octet mask is 0 at a multiple of 8); \<open>10.0.0.0/9\<close> is smaller than
  \<open>10.128.0.0/9\<close> but compares as 128, a positive number (the \<open>uint8\<close> difference
  wraps); \<open>10.0.0.0/17\<close> and \<open>11.0.0.0/17\<close> differ in the first octet but compare as 0
  (only the octet at index \<open>CIDRMask / 8\<close> is read).
\<close>

theorem Compare_not_an_ordering:
  "Compare (cidr 10 0 0 0 24) (cidr 10 0 1 0 24) = Inr 0
   \<and> Compare (cidr 10 0 0 0 9) (cidr 10 128 0 0 9) = Inr 128
   \<and> Compare (cidr 10 0 0 0 17) (cidr 11 0 0 0 17) = Inr 0"
  by (simp add: Compare_def wrap64_def signed_divide_int_def signed_modulo_int_def cidr_def)

text \<open>
  C10 (in-bounds access for /32). The claim: for masks in \<open>0..32\<close>, \<open>Compare\<close>, and with
  it \<open>Free\<close> of a /32 subnet into a pool whose /32 bucket is not empty, reads the address
  array in bounds only. At mask 32 the index is \<open>32 / 8 = 4\<close>, one past the last octet:
  \<open>Compare\<close> panics, and so does \<open>Free\<close> of \<open>5.6.7.8/32\<close> into a pool that holds
  \<open>1.2.3.4/32\<close>.
\<close>

theorem Compare_slash32_out_of_range:
  "Compare (cidr 5 6 7 8 32) (cidr 1 2 3 4 32) = Inl PanicIndexOutOfRange
   \<and> fst (Free (cidr 5 6 7 8 32) (snd (Free (cidr 1 2 3 4 32) empty_pool)))
       = Some PanicIndexOutOfRange"
  by (simp add: pool_eval empty_pool_def)

subsection \<open>Free\<close>

lemma Free_empty_bucket:
  "0 \<le> CIDRMask s \<Longrightarrow> CIDRMask s \<le> 32 \<Longrightarrow> pl (CIDRMask s) = [] \<Longrightarrow>
   Free s pl = (None, pl(CIDRMask s := [s]))"
  by (simp add: Free_def)

text \<open>
  \<open>Free\<close> compares the new subnet with the head of the bucket only for \<open><\<close>; the test
  for equality starts at the second node.
\<close>

lemma Free_head_again:
  "0 \<le> CIDRMask s \<Longrightarrow> CIDRMask s \<le> 31 \<Longrightarrow> pl (CIDRMask s) = [s] \<Longrightarrow>
   Free s pl = (None, pl(CIDRMask s := [s, s]))"
  by (simp add: Free_def Compare_self)

text \<open>
  C3 (double-free detection). The claim: \<open>Free S\<close> fails with a double-free error and
  leaves the pool unchanged whenever \<open>S\<close> is already in the bucket of its mask length,
  whatever its position. The code misses the first position: freeing \<open>10.0.0.0/25\<close> into
  the empty pool and then freeing it again succeeds both times, and the bucket holds the
  subnet twice.
\<close>

theorem Free_twice_not_detected:
  "Free (cidr 10 0 0 0 25) empty_pool = (None, empty_pool(25 := [cidr 10 0 0 0 25]))
   \<and> Free (cidr 10 0 0 0 25) (empty_pool(25 := [cidr 10 0 0 0 25]))
       = (None, empty_pool(25 := [cidr 10 0 0 0 25, cidr 10 0 0 0 25]))"
  by (simp add: pool_eval empty_pool_def)

subsection \<open>Alloc\<close>

lemma Alloc_hit:
  "0 \<le> k \<Longrightarrow> k \<le> 32 \<Longrightarrow> pl k = s # rest \<Longrightarrow> Alloc k pl = (Inr s, pl(k := rest))"
  by (simp add: Alloc.simps)

text \<open>
  When the bucket asked for and every bucket of a shorter mask are empty, the recursion
  reaches \<open>Alloc(-1)\<close>, whose error is returned: this is how the pool reports that it
  is out of addresses.
\<close>

lemma Alloc_exhausted:
  "\<forall>j. 0 \<le> j \<and> j \<le> k \<longrightarrow> pl j = [] \<Longrightarrow> Alloc k pl = (Inl InvalidSubnetSize, pl)"
proof (induction k pl rule: Alloc.induct)
  case (1 sz pl)
  show ?case
  proof (cases "sz < 0 \<or> sz > 32")
    case True
    then show ?thesis by (simp add: Alloc.simps)
  next
    case False
    then have e: "pl sz = []" using 1(2) by simp
    have "Alloc (sz - 1) pl = (Inl InvalidSubnetSize, pl)"
      using 1(1)[OF False e] 1(2) by simp
    then show ?thesis using False e by (simp add: Alloc.simps)
  qed
qed

lemma empty_pool_upd: "empty_pool(k := []) = empty_pool"
  by (simp add: empty_pool_def fun_eq_iff)

lemma Alloc_empty_pool: "Alloc k empty_pool = (Inl InvalidSubnetSize, empty_pool)"
  by (rule Alloc_exhausted) (simp add: empty_pool_def)

subsection \<open>Exhausting a /16 block\<close>

lemma Alloc_many_numeral:
  "Alloc_many (numeral k) sz pl =
     (case Alloc sz pl of
        (Inl e, pool1) \<Rightarrow> (Inl e, pool1)
      | (Inr s, pool1) \<Rightarrow>
          (case Alloc_many (pred_numeral k) sz pool1 of
             (Inl e, pool2) \<Rightarrow> (Inl e, pool2)
           | (Inr ss, pool2) \<Rightarrow> (Inr (s # ss), pool2)))"
  by (simp add: numeral_eq_Suc)

text \<open>Updates of the pool are kept ordered by bucket, so that each bucket occurs once.\<close>

lemma fun_upd_sort: "(k2::int) < k1 \<Longrightarrow> f(k1 := x, k2 := y) = f(k2 := y, k1 := x)"
  by (rule fun_upd_twist) simp

lemma const_upd: "(\<lambda>_. c)(k := c) = (\<lambda>_. c)"
  by auto

text \<open>
  The 256 allocations of a /24 from the /16 block \<open>a.b.c.d/16\<close> return
  \<open>a.b.0.0/24\<close>, \<open>a.b.1.0/24\<close>, ..., \<open>a.b.255.0/24\<close> in this order, and leave
  every bucket empty.
\<close>

lemma Alloc_256_of_slash16:
  "Alloc_many 256 24 (snd (Free (cidr a b c d 16) empty_pool))
   = (Inr (map (block24 a b) [0..<256]), empty_pool)"
  by (simp add: pool_eval Alloc_many_numeral fun_upd_sort const_upd block24_def upt_rec
      empty_pool_def)

lemma block24_inj: "i < 256 \<Longrightarrow> j < 256 \<Longrightarrow> block24 a b i = block24 a b j \<Longrightarrow> i = j"
  by (simp add: block24_def cidr_def word_of_nat_eq_iff take_bit_nat_eq_self)

lemma block24_distinct: "distinct (map (block24 a b) [0..<256])"
  by (auto simp: distinct_map inj_on_def dest: block24_inj)

lemma Free_Alloc_single:
  "0 \<le> CIDRMask s \<Longrightarrow> CIDRMask s \<le> 32 \<Longrightarrow>
   Free s empty_pool = (None, empty_pool(CIDRMask s := [s]))
   \<and> Alloc (CIDRMask s) (empty_pool(CIDRMask s := [s])) = (Inr s, empty_pool)"
  by (simp add: Free_empty_bucket empty_pool_def Alloc_hit [where s = s and rest = "[]"] const_upd)

text \<open>
  C5 (pool exhaustion). The pool is initialised by a single \<open>Free\<close> of a /16 block
  \<open>a.b.c.d/16\<close>. Then 256 successive calls \<open>Alloc 24\<close> all succeed; they return the
  pairwise distinct subnets \<open>a.b.i.0/24\<close> for \<open>i = 0, ..., 255\<close>, which cover the
  block, and leave the pool empty. The 257th \<open>Alloc 24\<close> fails, with the error of
  \<open>Alloc(-1)\<close> that the recursion ends in (this is the out-of-addresses failure of the
  pool). After \<open>Free\<close> of any one of the returned subnets, which succeeds, a further
  \<open>Alloc 24\<close> succeeds and returns that subnet.
\<close>

theorem pool_exhaustion_slash16:
  "Alloc_many 256 24 (snd (Free (cidr a b c d 16) empty_pool))
     = (Inr (map (block24 a b) [0..<256]), empty_pool)
   \<and> distinct (map (block24 a b) [0..<256])
   \<and> Alloc 24 (snd (Alloc_many 256 24 (snd (Free (cidr a b c d 16) empty_pool))))
       = (Inl InvalidSubnetSize, empty_pool)
   \<and> (\<forall>s \<in> set (map (block24 a b) [0..<256]).
         Free s (snd (Alloc_many 256 24 (snd (Free (cidr a b c d 16) empty_pool))))
           = (None, empty_pool(24 := [s]))
         \<and> Alloc 24 (empty_pool(24 := [s])) = (Inr s, empty_pool))"
proof -
  have run: "Alloc_many 256 24 (snd (Free (cidr a b c d 16) empty_pool))
             = (Inr (map (block24 a b) [0..<256]), empty_pool)"
    by (rule Alloc_256_of_slash16)
  have after: "\<forall>s \<in> set (map (block24 a b) [0..<256]).
                 Free s empty_pool = (None, empty_pool(24 := [s]))
                 \<and> Alloc 24 (empty_pool(24 := [s])) = (Inr s, empty_pool)"
  proof
    fix s assume "s \<in> set (map (block24 a b) [0..<256])"
    then have m: "CIDRMask s = 24" by (auto simp: block24_def cidr_def)
    show "Free s empty_pool = (None, empty_pool(24 := [s]))
          \<and> Alloc 24 (empty_pool(24 := [s])) = (Inr s, empty_pool)"
      using Free_Alloc_single [of s] m by simp
  qed
  show ?thesis
    using run block24_distinct [of a b] Alloc_empty_pool [of 24] after by simp
qed

text \<open>C5 for the block \<open>10.1.0.0/16\<close> and the eighth subnet returned, \<open>10.1.7.0/24\<close>.\<close>

theorem pool_exhaustion_slash16_witness:
  "block24 10 1 7 \<in> set (map (block24 10 1) [0..<256])
   \<and> Free (block24 10 1 7) (snd (Alloc_many 256 24 (snd (Free (cidr 10 1 0 0 16) empty_pool))))
       = (None, empty_pool(24 := [block24 10 1 7]))
   \<and> Alloc 24 (empty_pool(24 := [block24 10 1 7])) = (Inr (block24 10 1 7), empty_pool)"
proof -
  have "(7::nat) \<in> set [0..<256]" by simp
  then have "block24 10 1 7 \<in> block24 10 1 ` set [0..<256]" by (rule imageI)
  then have m: "block24 10 1 7 \<in> set (map (block24 10 1) [0..<256])"
    by (simp only: set_map)
  have "\<forall>s \<in> set (map (block24 10 1) [0..<256]).
          Free s (snd (Alloc_many 256 24 (snd (Free (cidr 10 1 0 0 16) empty_pool))))
            = (None, empty_pool(24 := [s]))
          \<and> Alloc 24 (empty_pool(24 := [s])) = (Inr s, empty_pool)"
    using pool_exhaustion_slash16 [of 10 1 0 0] by blast
  then show ?thesis using m by blast
qed

subsection \<open>Allocating and freeing without a split\<close>

lemma run_op_same_size:
  assumes m: "0 \<le> CIDRMask C" "CIDRMask C \<le> 32"
    and op: "alloc_size_is (CIDRMask C) op"
    and st: "st = (empty_pool(CIDRMask C := [C]), []) \<or> st = (empty_pool, [C])"
  shows "run_op op st = (empty_pool(CIDRMask C := [C]), []) \<or> run_op op st = (empty_pool, [C])"
proof (cases op)
  case (OpAlloc k)
  then have k: "k = CIDRMask C" using op by simp
  from st show ?thesis
  proof
    assume "st = (empty_pool(CIDRMask C := [C]), [])"
    then show ?thesis using m k OpAlloc
      by (simp add: Alloc_hit [where s = C and rest = "[]"] empty_pool_upd)
  next
    assume "st = (empty_pool, [C])"
    then show ?thesis using OpAlloc by (simp add: Alloc_empty_pool)
  qed
next
  case (OpFree i)
  from st show ?thesis
  proof
    assume "st = (empty_pool(CIDRMask C := [C]), [])"
    then show ?thesis using OpFree by simp
  next
    assume s: "st = (empty_pool, [C])"
    have "Free C empty_pool = (None, empty_pool(CIDRMask C := [C]))"
      using m by (simp add: Free_empty_bucket empty_pool_def)
    then show ?thesis using s OpFree by (cases i) simp_all
  qed
qed

lemma run_ops_same_size:
  assumes m: "0 \<le> CIDRMask C" "CIDRMask C \<le> 32"
  shows "list_all (alloc_size_is (CIDRMask C)) ops \<Longrightarrow>
         st = (empty_pool(CIDRMask C := [C]), []) \<or> st = (empty_pool, [C]) \<Longrightarrow>
         run_ops ops st = (empty_pool(CIDRMask C := [C]), []) \<or> run_ops ops st = (empty_pool, [C])"
proof (induction ops arbitrary: st)
  case Nil
  then show ?case by simp
next
  case (Cons op ops)
  have a: "list_all (alloc_size_is (CIDRMask C)) ops" and b: "alloc_size_is (CIDRMask C) op"
    using Cons.prems(1) by simp_all
  have s: "run_op op st = (empty_pool(CIDRMask C := [C]), []) \<or> run_op op st = (empty_pool, [C])"
    by (rule run_op_same_size [OF m b Cons.prems(2)])
  show ?case unfolding run_ops.simps by (rule Cons.IH [OF a s])
qed

text \<open>
  C2 (pool restoration round trip), as amended. The pool starts as the empty pool
  followed by \<open>Free C\<close>. For every sequence of \<open>Alloc\<close> and \<open>Free\<close> operations in which
  every \<open>Alloc\<close> asks for the mask length of \<open>C\<close> itself, if every subnet returned by
  \<open>Alloc\<close> has been freed exactly once at the end, the pool is its initial state again,
  and a further \<open>Alloc\<close> with the mask length of \<open>C\<close> succeeds and returns \<open>C\<close>.
\<close>

theorem pool_round_trip_same_size:
  assumes "0 \<le> CIDRMask C" and "CIDRMask C \<le> 32"
    and "list_all (alloc_size_is (CIDRMask C)) ops"
    and "run_ops ops (snd (Free C empty_pool), []) = (pl', [])"
  shows "pl' = snd (Free C empty_pool) \<and> Alloc (CIDRMask C) pl' = (Inr C, empty_pool)"
proof -
  have f: "Free C empty_pool = (None, empty_pool(CIDRMask C := [C]))"
    using assms(1,2) by (simp add: Free_empty_bucket empty_pool_def)
  have "run_ops ops (empty_pool(CIDRMask C := [C]), []) = (empty_pool(CIDRMask C := [C]), [])
        \<or> run_ops ops (empty_pool(CIDRMask C := [C]), []) = (empty_pool, [C])"
    using run_ops_same_size [OF assms(1,2) assms(3)] by simp
  then have p: "pl' = empty_pool(CIDRMask C := [C])"
    using assms(4) f by auto
  have "Alloc (CIDRMask C) (empty_pool(CIDRMask C := [C])) = (Inr C, empty_pool)"
    using assms(1,2) by (simp add: Alloc_hit [where s = C and rest = "[]"] empty_pool_upd)
  then show ?thesis using p f by simp
qed

text \<open>
  The amended C2 at \<open>C = 10.0.0.0/16\<close> and the run Alloc(16), Alloc(16) (which fails: the
  pool is empty), Free, Alloc(16), Free.
\<close>

theorem pool_round_trip_same_size_witness:
  "0 \<le> CIDRMask (cidr 10 0 0 0 16) \<and> CIDRMask (cidr 10 0 0 0 16) \<le> 32
   \<and> list_all (alloc_size_is (CIDRMask (cidr 10 0 0 0 16)))
        [OpAlloc 16, OpAlloc 16, OpFree 0, OpAlloc 16, OpFree 0]
   \<and> run_ops [OpAlloc 16, OpAlloc 16, OpFree 0, OpAlloc 16, OpFree 0]
        (snd (Free (cidr 10 0 0 0 16) empty_pool), [])
       = (snd (Free (cidr 10 0 0 0 16) empty_pool), [])
   \<and> Alloc (CIDRMask (cidr 10 0 0 0 16)) (snd (Free (cidr 10 0 0 0 16) empty_pool))
       = (Inr (cidr 10 0 0 0 16), empty_pool)"
proof -
  have r: "run_ops [OpAlloc 16, OpAlloc 16, OpFree 0, OpAlloc 16, OpFree 0]
             (snd (Free (cidr 10 0 0 0 16) empty_pool), [])
           = (snd (Free (cidr 10 0 0 0 16) empty_pool), [])"
    by (simp add: pool_eval empty_pool_def)
  have m: "CIDRMask (cidr 10 0 0 0 16) = 16" by (simp add: cidr_def)
  show ?thesis
    using pool_round_trip_same_size
      [of "cidr 10 0 0 0 16" "[OpAlloc 16, OpAlloc 16, OpFree 0, OpAlloc 16, OpFree 0]", OF _ _ _ r] r
    by (simp add: m)
qed

text \<open>
  C2 as stated fails: \<open>Free\<close> never merges. From the pool that holds \<open>10.0.0.0/16\<close>,
  \<open>Alloc 17\<close> splits the block and returns \<open>10.0.0.0/17\<close>; after that subnet is freed
  the /16 bucket is still empty, the /17 bucket holds both halves, and \<open>Alloc 16\<close> fails.
\<close>

theorem pool_round_trip_counterexample:
  "fst (Alloc 17 (snd (Free (cidr 10 0 0 0 16) empty_pool))) = Inr (cidr 10 0 0 0 17)
   \<and> fst (Free (cidr 10 0 0 0 17) (snd (Alloc 17 (snd (Free (cidr 10 0 0 0 16) empty_pool))))) = None
   \<and> fst (Alloc 16 (snd (Free (cidr 10 0 0 0 17)
        (snd (Alloc 17 (snd (Free (cidr 10 0 0 0 16) empty_pool)))))))
       = Inl InvalidSubnetSize
   \<and> snd (Free (cidr 10 0 0 0 17) (snd (Alloc 17 (snd (Free (cidr 10 0 0 0 16) empty_pool))))) 16 = []
   \<and> snd (Free (cidr 10 0 0 0 17) (snd (Alloc 17 (snd (Free (cidr 10 0 0 0 16) empty_pool))))) 17
       = [cidr 10 0 128 0 17, cidr 10 0 0 0 17]
   \<and> snd (Free (cidr 10 0 0 0 16) empty_pool) 16 = [cidr 10 0 0 0 16]"
  by (simp add: pool_eval empty_pool_def)

section \<open>Properties of the client\<close>

subsection \<open>What a call changes\<close>

lemma acl_posts_append: "acl_posts (xs @ ys) = acl_posts xs @ acl_posts ys"
  by (induction xs rule: acl_posts.induct) simp_all

lemma talks_trans:
  assumes "talks ps c c1" and "talks qs c1 c2"
  shows "talks (ps @ qs) c c2"
proof -
  from assms(1) obtain w rs
    where 1: "c1 = c\<lparr>vsd := w, sent := sent c @ rs\<rparr>" "acl_posts rs = ps"
    unfolding talks_def by blast
  from assms(2) obtain w' rs'
    where 2: "c2 = c1\<lparr>vsd := w', sent := sent c1 @ rs'\<rparr>" "acl_posts rs' = qs"
    unfolding talks_def by blast
  have "c2 = c\<lparr>vsd := w', sent := sent c @ (rs @ rs')\<rparr>"
    using 1(1) 2(1) by simp
  moreover have "acl_posts (rs @ rs') = ps @ qs"
    using 1(2) 2(2) by (simp add: acl_posts_append)
  ultimately show ?thesis unfolding talks_def by blast
qed

lemma talks_quiet_trans: "talks [] c c1 \<Longrightarrow> talks qs c1 c2 \<Longrightarrow> talks qs c c2"
  using talks_trans [of "[]" c c1 qs c2] by simp

lemma session_talks:
  "session h req c = (resp, c') \<Longrightarrow> talks (acl_posts [req]) c c'"
  unfolding talks_def session_def
  by (auto split: prod.splits intro!: exI [of _ "[req]"])

lemma GetZoneID_talks: "GetZoneID h d n c = (r, c') \<Longrightarrow> talks [] c c'"
  unfolding GetZoneID_def
  by (auto split: prod.splits response.splits if_splits dest!: session_talks)

lemma GetSubnetID_talks: "GetSubnetID h z s c = (r, c') \<Longrightarrow> talks [] c c'"
  unfolding GetSubnetID_def
  by (auto split: prod.splits response.splits if_splits dest!: session_talks)

lemma GetNetworkMacroGroupID_talks: "GetNetworkMacroGroupID h e n c = (r, c') \<Longrightarrow> talks [] c c'"
  unfolding GetNetworkMacroGroupID_def
  by (auto split: prod.splits response.splits if_splits dest!: session_talks)

lemma GetAclEntry_talks: "GetAclEntry h t i e c = (r, c') \<Longrightarrow> talks [] c c'"
  unfolding GetAclEntry_def
  by (auto split: prod.splits response.splits if_splits dest!: session_talks)

lemma DeleteNetworkMacro_talks: "DeleteNetworkMacro h m c = (r, c') \<Longrightarrow> talks [] c c'"
  unfolding DeleteNetworkMacro_def
  by (auto split: prod.splits response.splits if_splits dest!: session_talks)

lemma CreateZone_talks: "CreateZone h d n c = (r, c') \<Longrightarrow> talks [] c c'"
  unfolding CreateZone_def
  by (auto split: prod.splits response.splits if_splits
      dest!: session_talks GetZoneID_talks intro: talks_quiet_trans)

lemma CreateSubnet_talks: "CreateSubnet h n z s c = (r, c') \<Longrightarrow> talks [] c c'"
  unfolding CreateSubnet_def
  by (auto split: prod.splits response.splits if_splits
      dest!: session_talks GetSubnetID_talks intro: talks_quiet_trans)

lemma CreateNetworkMacroGroup_talks: "CreateNetworkMacroGroup h e n c = (r, c') \<Longrightarrow> talks [] c c'"
  unfolding CreateNetworkMacroGroup_def
  by (auto split: prod.splits response.splits if_splits
      dest!: session_talks GetNetworkMacroGroupID_talks intro: talks_quiet_trans)

lemma CreateAclEntry_talks:
  "CreateAclEntry h t i e c = (r, c') \<Longrightarrow> talks [(t, i, Priority e)] c c'"
  unfolding CreateAclEntry_def
  by (auto split: prod.splits response.splits if_splits
      dest!: session_talks GetAclEntry_talks dest: talks_trans)

subsection \<open>The ACL entries that the client posts\<close>

text \<open>
  \<open>CreateSpecificZoneAcls\<close> builds one entry, with priority 300 plus the value of the
  counter, and posts this one entry to the ingress and to the egress template. After the
  second post the counter is the priority of the entry plus 1.
\<close>

lemma CreateSpecificZoneAcls_posts:
  assumes "CreateSpecificZoneAcls h zn zid c = (None, c')"
  shows "acl_posts (sent c') = acl_posts (sent c) @
           [(ingressAclTemplateID c, True, 300 + nextAvailablePriority c),
            (egressAclTemplateID c, False, 300 + nextAvailablePriority c)]
         \<and> nextAvailablePriority c' = 301 + nextAvailablePriority c"
  using assms
  unfolding CreateSpecificZoneAcls_def Let_def NextAvailablePriority_def
    SetNextAvailablePriority_def record_macro_group_def
  by (auto split: prod.splits sum.splits option.splits
      dest!: CreateNetworkMacroGroup_talks CreateAclEntry_talks
      simp: talks_def acl_posts_append)

text \<open>The same for a whole Added event, whether the namespace is tracked already or not.\<close>

lemma HandleNsEvent_Added_posts:
  assumes "name \<noteq> ''default''" and "HandleNsEvent_Added h name c = (None, c')"
  shows "acl_posts (sent c') = acl_posts (sent c) @
           [(ingressAclTemplateID c, True, 300 + nextAvailablePriority c),
            (egressAclTemplateID c, False, 300 + nextAvailablePriority c)]
         \<and> nextAvailablePriority c' = 301 + nextAvailablePriority c"
  using assms
  unfolding HandleNsEvent_Added_def create_zone_acls_def Let_def
  by (auto split: prod.splits sum.splits option.splits if_splits
      dest!: CreateZone_talks CreateSubnet_talks GetZoneID_talks CreateSpecificZoneAcls_posts
      simp: talks_def acl_posts_append)

lemma CreateIngressAclEntries_posts:
  "CreateIngressAclEntries h c = (None, c') \<Longrightarrow>
   acl_posts (sent c') = acl_posts (sent c) @
     [(ingressAclTemplateID c, True, 0), (ingressAclTemplateID c, True, 1000000000)]"
  unfolding CreateIngressAclEntries_def
  by (auto split: prod.splits sum.splits dest!: CreateAclEntry_talks
      simp: talks_def acl_posts_append intra_zone_entry_def intra_domain_entry_def)

text \<open>
  \<open>CreateEgressAclEntries\<close> posts its second entry, the drop entry, with the id of the
  ingress template.
\<close>

lemma CreateEgressAclEntries_posts:
  "CreateEgressAclEntries h c = (None, c') \<Longrightarrow>
   acl_posts (sent c') = acl_posts (sent c) @
     [(egressAclTemplateID c, False, 0), (ingressAclTemplateID c, False, 1000000000)]"
  unfolding CreateEgressAclEntries_def
  by (auto split: prod.splits sum.splits dest!: CreateAclEntry_talks
      simp: talks_def acl_posts_append intra_zone_entry_def intra_domain_entry_def)

subsection \<open>Bootstrap of the ACL templates\<close>

text \<open>
  C7 (baseline entries on the egress template). The claim: after bootstrap the egress
  template holds both baseline entries, the forward entry of priority 0 and the drop
  entry of priority \<open>10^9\<close>. Against the model of the SDN, the ingress template gets
  the id 1 and the egress template the id 4; the client posts the drop entry of the
  egress side to the egress endpoint of template 1, the ingress template, so the egress
  template 4 holds the forward entry only.
\<close>

theorem egress_template_lacks_drop_entry:
  "fst (CreateIngressAclTemplate vsd_http ''dom''
          (client_before_templates \<lparr>objects = [], members = [], next_id = 1\<rparr>)) = Inr ''1''
   \<and> fst (CreateEgressAclTemplate vsd_http ''dom'' ingress_created) = Inr ''4''
   \<and> ingressAclTemplateID bootstrapped = ''1'' \<and> egressAclTemplateID bootstrapped = ''4''
   \<and> acl_posts (sent bootstrapped)
       = [(''1'', True, 0), (''1'', True, 1000000000), (''4'', False, 0), (''1'', False, 1000000000)]
   \<and> acl_table (objects (vsd bootstrapped))
       = [(AclEntries ''1'' True, 0), (AclEntries ''1'' True, 1000000000),
          (AclEntries ''4'' False, 0), (AclEntries ''1'' False, 1000000000)]"
  by code_simp

subsection \<open>ACLs of a specific zone\<close>

text \<open>
  C6 (priorities of the ACLs of a specific zone), as amended. When
  \<open>CreateSpecificZoneAcls\<close> is called with the priority counter at 0 and succeeds, the
  ACL entries that it posts are one entry for the ingress template and one for the
  egress template, both with the same priority 300 (300 plus the one value taken from
  the allocator).
\<close>

theorem specific_zone_acl_priorities:
  assumes "nextAvailablePriority c = 0"
    and "fst (CreateSpecificZoneAcls h zoneName zoneID c) = None"
  shows "acl_posts (sent (snd (CreateSpecificZoneAcls h zoneName zoneID c))) =
           acl_posts (sent c) @
             [(ingressAclTemplateID c, True, 300), (egressAclTemplateID c, False, 300)]"
proof -
  obtain c' where r: "CreateSpecificZoneAcls h zoneName zoneID c = (None, c')"
    using assms(2) by (cases "CreateSpecificZoneAcls h zoneName zoneID c") simp
  show ?thesis
    using CreateSpecificZoneAcls_posts [OF r] assms(1) r by simp
qed

text \<open>
  The amended C6 for the zone \<open>alpha\<close>, created with \<open>CreateZone\<close> on the client that
  \<open>Init\<close> leaves, where it gets the id 7.
\<close>

theorem specific_zone_acl_priorities_witness:
  "nextAvailablePriority zone_created = 0
   \<and> fst (CreateSpecificZoneAcls vsd_http ''alpha'' ''7'' zone_created) = None
   \<and> acl_posts (sent (snd (CreateSpecificZoneAcls vsd_http ''alpha'' ''7'' zone_created))) =
        acl_posts (sent zone_created) @
          [(ingressAclTemplateID zone_created, True, 300),
           (egressAclTemplateID zone_created, False, 300)]"
proof -
  have p: "nextAvailablePriority zone_created = 0" by code_simp
  have f: "fst (CreateSpecificZoneAcls vsd_http ''alpha'' ''7'' zone_created) = None"
    by code_simp
  show ?thesis
    using specific_zone_acl_priorities [OF p f] p f by simp
qed

text \<open>
  C6 as stated fails. The first Added event after \<open>Init\<close>, for the namespace \<open>alpha\<close>,
  panics at the write to \<open>nvsdc.zones\<close> and posts no ACL entry. And
  \<open>CreateSpecificZoneAcls\<close> itself, called for that zone with the counter at 0, posts
  its ingress entry and its egress entry with the priorities 300 and 300, not 300 and
  301.
\<close>

theorem specific_zone_acl_priorities_counterexample:
  "fst (HandleNsEvent_Added vsd_http ''alpha'' bootstrapped) = Some PanicNilMap
   \<and> acl_posts (sent added_once) = acl_posts (sent bootstrapped)
   \<and> fst (CreateZone vsd_http ''dom'' ''alpha'' bootstrapped) = Inr ''7''
   \<and> nextAvailablePriority zone_created = 0
   \<and> fst (CreateSpecificZoneAcls vsd_http ''alpha'' ''7'' zone_created) = None
   \<and> acl_posts (sent acls_created)
       = acl_posts (sent zone_created) @ [(''1'', True, 300), (''4'', False, 300)]"
  by code_simp

subsection \<open>Namespace events\<close>

text \<open>
  While \<open>zones\<close> is the nil map, an Added event for a namespace that is not tracked
  never succeeds, and it leaves the namespace untracked and \<open>zones\<close> nil: when
  \<open>CreateZone\<close> fails the event returns its error, and when it succeeds the write to
  \<open>zones\<close> panics.
\<close>

lemma HandleNsEvent_Added_nil_zones:
  assumes "namespaces c name = None" and "zones c = None"
  shows "fst (HandleNsEvent_Added h name c) \<noteq> None
         \<and> namespaces (snd (HandleNsEvent_Added h name c)) name = None
         \<and> zones (snd (HandleNsEvent_Added h name c)) = None"
  using assms
  unfolding HandleNsEvent_Added_def
  by (auto split: prod.splits sum.splits dest!: CreateZone_talks simp: talks_def)


subsection \<open>Service events\<close>

text \<open>
  C8 (service deletion cleans the macro map). The claim: a Deleted event for the
  service \<open>S\<close> of a tracked namespace whose map \<open>NetworkMacros\<close> contains the key \<open>S\<close>
  deletes the macro on the SDN and removes the key \<open>S\<close> from the map. The code sends
  the DELETE for the macro, and then deletes from the map the key that is the id of the
  macro, not the key \<open>S\<close>: whenever the id differs from \<open>S\<close> and the event succeeds,
  the map still maps \<open>S\<close> to the id afterwards.
\<close>

theorem HandleServiceEvent_Deleted_keeps_key:
  assumes "ev_Type ev = Deleted"
    and "namespace_macro c (ev_Namespace ev) (ev_Name ev) = Some nmID"
    and "nmID \<noteq> ev_Name ev"
    and "fst (HandleServiceEvent h ev c) = None"
  shows "sent (snd (HandleServiceEvent h ev c)) = sent c @ [DELETE (EnterpriseNetwork nmID)]
         \<and> namespace_macro (snd (HandleServiceEvent h ev c)) (ev_Namespace ev) (ev_Name ev)
             = Some nmID"
  using assms
  unfolding HandleServiceEvent_def namespace_macro_def DeleteNetworkMacro_def session_def
  by (auto split: prod.splits option.splits response.splits if_splits)

text \<open>
  C8 for the service \<open>web\<close> of \<open>alpha\<close>: the namespace is tracked through
  \<open>CreateSpecificZoneAcls\<close>, the Added event of the service stores the id 11 of its
  macro under \<open>web\<close>, and after the Deleted event, which deletes the macro on the SDN,
  the map still maps \<open>web\<close> to 11.
\<close>

theorem HandleServiceEvent_Deleted_keeps_key_witness:
  "ev_Type (web_event Deleted) = Deleted
   \<and> namespace_macro service_added (ev_Namespace (web_event Deleted)) (ev_Name (web_event Deleted))
       = Some ''11''
   \<and> ''11'' \<noteq> ev_Name (web_event Deleted)
   \<and> fst (HandleServiceEvent vsd_http (web_event Deleted) service_added) = None
   \<and> collection_ids (EnterpriseNetworks ''ent'') (objects (vsd service_added)) = [''11'']
   \<and> collection_ids (EnterpriseNetworks ''ent'') (objects (vsd service_deleted)) = []
   \<and> sent (snd (HandleServiceEvent vsd_http (web_event Deleted) service_added))
       = sent service_added @ [DELETE (EnterpriseNetwork ''11'')]
   \<and> namespace_macro (snd (HandleServiceEvent vsd_http (web_event Deleted) service_added))
        (ev_Namespace (web_event Deleted)) (ev_Name (web_event Deleted))
       = Some ''11''"
proof -
  have t: "ev_Type (web_event Deleted) = Deleted" by (simp add: web_event_def)
  have m: "namespace_macro service_added (ev_Namespace (web_event Deleted))
             (ev_Name (web_event Deleted)) = Some ''11''"
    by code_simp
  have n: "''11'' \<noteq> ev_Name (web_event Deleted)" by (simp add: web_event_def)
  have f: "fst (HandleServiceEvent vsd_http (web_event Deleted) service_added) = None"
    by code_simp
  have a: "collection_ids (EnterpriseNetworks ''ent'') (objects (vsd service_added)) = [''11'']"
    by code_simp
  have d: "collection_ids (EnterpriseNetworks ''ent'') (objects (vsd service_deleted)) = []"
    by code_simp
  show ?thesis
    using HandleServiceEvent_Deleted_keeps_key [OF t m n f] t m n f a d by simp
qed

subsection \<open>Lookup of a network macro\<close>

text \<open>
  C9 (mismatch of the natural key of a network macro), as amended. The GET of
  \<open>GetNetworkMacroID\<close> carries a filter on name, IP type, address and netmask. When it
  returns with status 200, the operation returns the id of the returned record if the
  name of the record equals the requested name, fails with NotFound if the name of the
  record is empty, and fails with Mismatch otherwise. IP type, address and netmask of
  the returned record are not compared with the request.
\<close>

theorem GetNetworkMacroID_checks_name:
  assumes "h (GET (NetworkMacroList entID)
                (FMacro (nm_Name m) (nm_IPType m) (nm_Address m) (nm_Netmask m))) (vsd c)
           = (Response 200 r, w)"
  shows "fst (GetNetworkMacroID h entID m c) =
           (if res_Name r = nm_Name m then Inr (res_ID r)
            else if res_Name r = [] then Inl NotFound
            else Inl Mismatch)"
  using assms
  by (simp add: GetNetworkMacroID_def GetNetworkMacroID_result_def session_def)

text \<open>The amended C9 for a record with another name: the lookup fails with Mismatch.\<close>

theorem GetNetworkMacroID_checks_name_witness:
  "answer (Response 200 other_name_record)
     (GET (NetworkMacroList ''ent'')
        (FMacro (nm_Name web_macro) (nm_IPType web_macro) (nm_Address web_macro)
           (nm_Netmask web_macro)))
     (vsd (client_before_templates ()))
   = (Response 200 other_name_record, ())
   \<and> fst (GetNetworkMacroID (answer (Response 200 other_name_record)) ''ent'' web_macro
            (client_before_templates ()))
     = Inl Mismatch"
proof -
  have a: "answer (Response 200 other_name_record)
             (GET (NetworkMacroList ''ent'')
                (FMacro (nm_Name web_macro) (nm_IPType web_macro) (nm_Address web_macro)
                   (nm_Netmask web_macro)))
             (vsd (client_before_templates ()))
           = (Response 200 other_name_record, ())"
    by (simp add: answer_def)
  show ?thesis
    using GetNetworkMacroID_checks_name
      [of "answer (Response 200 other_name_record)" "''ent''" web_macro
          "client_before_templates ()" other_name_record "()"] a
    by (simp add: other_name_record_def web_macro_def)
qed

text \<open>
  C9 as stated fails: a record with the requested name but another address and netmask
  is accepted, and its id 42 is returned.
\<close>

theorem GetNetworkMacroID_counterexample:
  "res_Name same_name_record = nm_Name web_macro
   \<and> res_Address same_name_record \<noteq> nm_Address web_macro
   \<and> res_Netmask same_name_record \<noteq> nm_Netmask web_macro
   \<and> fst (GetNetworkMacroID (answer (Response 200 same_name_record)) ''ent'' web_macro
            (client_before_templates ()))
     = Inr ''42''"
  by (simp add: GetNetworkMacroID_def GetNetworkMacroID_result_def session_def answer_def
      same_name_record_def web_macro_def)

end
